theory Spec2Isabelle
  imports Main "HOL-Library.Stream"
begin

section \<open>Data model\<close>

text \<open>
  An instant (Go \<^verbatim>\<open>time.Time\<close>) is a number of nanoseconds counted from Go's zero time, on
  one timeline; a \<^verbatim>\<open>time.Duration\<close> is a signed 64-bit number of nanoseconds.
  \<^verbatim>\<open>t.Sub(u)\<close> saturates at the ends of the Duration range, \<^verbatim>\<open>t.After(u)\<close> is the strict
  order.
\<close>

type_synonym time = int
type_synonym Duration = int

definition zero_time :: time where
  "zero_time = 0"

definition maxDuration :: Duration where
  "maxDuration = 2 ^ 63 - 1"

definition minDuration :: Duration where
  "minDuration = - (2 ^ 63)"

definition time_Sub :: "time \<Rightarrow> time \<Rightarrow> Duration" where
  "time_Sub t u =
     (let d = t - u
      in if d > maxDuration then maxDuration
         else if d < minDuration then minDuration
         else d)"

definition time_After :: "time \<Rightarrow> time \<Rightarrow> bool" where
  "time_After t u \<longleftrightarrow> u < t"

text \<open>The struct \<^verbatim>\<open>Peer\<close> of \<^verbatim>\<open>peer.go\<close> (both copies declare the same four fields).\<close>

record Peer =
  ID :: string
  Address :: string
  LastSeen :: time
  IsAlive :: bool

text \<open>
  \<^verbatim>\<open>PeerList.peers\<close> is a Go map from id to a peer record. The lock is not modelled: every
  operation below is one atomic step. The state a node's code runs in is the map together
  with the readings that the calls of \<^verbatim>\<open>time.Now()\<close> are going to return, in order: a call
  takes the head of the stream.
\<close>

record world =
  peers :: "string \<rightharpoonup> Peer"
  clock :: "time stream"

text \<open>
  Go visits the keys of a map in an order of the runtime's choice, a new one for each
  \<^verbatim>\<open>range\<close> loop. The order is an argument of every function that ranges over the map;
  \<open>range_order\<close> says that a key list is one of the orders the runtime may choose.
\<close>

definition range_order :: "(string \<rightharpoonup> Peer) \<Rightarrow> string list \<Rightarrow> bool" where
  "range_order m ks \<longleftrightarrow> distinct ks \<and> set ks = dom m"

text \<open>Every record is stored under its own id (\<^verbatim>\<open>pl.peers[peer.ID] = peer\<close>).\<close>

definition keyed :: "(string \<rightharpoonup> Peer) \<Rightarrow> bool" where
  "keyed m \<longleftrightarrow> (\<forall>k r. m k = Some r \<longrightarrow> ID r = k)"

section \<open>The peer registry (\<^verbatim>\<open>peer.go\<close>)\<close>

definition NewPeerList :: "string \<rightharpoonup> Peer" where
  "NewPeerList = Map.empty"

definition Add :: "Peer \<Rightarrow> world \<Rightarrow> world" where
  "Add peer w =
     w\<lparr>peers := (peers w)(ID peer \<mapsto> peer\<lparr>LastSeen := shd (clock w), IsAlive := True\<rparr>),
       clock := stl (clock w)\<rparr>"

definition Remove :: "string \<Rightarrow> world \<Rightarrow> world" where
  "Remove i w = w\<lparr>peers := (peers w)(i := None)\<rparr>"

definition Get :: "string \<Rightarrow> world \<Rightarrow> Peer option" where
  "Get i w = peers w i"

definition GetAll :: "string list \<Rightarrow> world \<Rightarrow> Peer list" where
  "GetAll ks w = List.map_filter (peers w) ks"

definition GetAlive :: "string list \<Rightarrow> world \<Rightarrow> Peer list" where
  "GetAlive ks w = filter IsAlive (List.map_filter (peers w) ks)"

definition MarkDead :: "string \<Rightarrow> world \<Rightarrow> world" where
  "MarkDead i w =
     (case peers w i of
        Some peer \<Rightarrow> w\<lparr>peers := (peers w)(i \<mapsto> peer\<lparr>IsAlive := False\<rparr>)\<rparr>
      | None \<Rightarrow> w)"

definition UpdateLastSeen :: "string \<Rightarrow> world \<Rightarrow> world" where
  "UpdateLastSeen i w =
     (case peers w i of
        Some peer \<Rightarrow>
          w\<lparr>peers := (peers w)(i \<mapsto> peer\<lparr>LastSeen := shd (clock w), IsAlive := True\<rparr>),
            clock := stl (clock w)\<rparr>
      | None \<Rightarrow> w)"

definition Exists :: "string \<Rightarrow> world \<Rightarrow> bool" where
  "Exists i w \<longleftrightarrow> peers w i \<noteq> None"

section \<open>HTTP requests and responses\<close>

text \<open>
  A request as a handler sees it: the method, and what \<^verbatim>\<open>json.NewDecoder(r.Body).Decode\<close>
  makes of the body for the handler's target type (\<open>None\<close> when \<^verbatim>\<open>Decode\<close> returns an
  error). The decoder is Go's library, not code of this repository.
\<close>

record 'a Request =
  Method :: string
  Body :: "'a option"

record StatusInfo =
  status_id :: string
  status_address :: string
  total_peers :: nat
  alive_peers :: nat
  status_peers :: "Peer list"

datatype ResponseBody =
  NoBody
| ErrorText string
| PeersJSON "Peer list"
| StatusJSON StatusInfo

record Response =
  Status :: nat
  Payload :: ResponseBody

text \<open>
  A handler returns, or panics on a nil pointer (\<^verbatim>\<open>net/http\<close> recovers the panic and drops
  the connection: no response is written).
\<close>

datatype 'a outcome = Returned 'a | Panicked

text \<open>What a node sends: the URL and the JSON body of a POST.\<close>

datatype outbound =
  PostJoin string Peer
| PostGossip string "Peer list"

definition MethodPost :: string where
  "MethodPost = ''POST''"

definition MethodGet :: string where
  "MethodGet = ''GET''"

definition MethodNotAllowed :: Response where
  "MethodNotAllowed = \<lparr>Status = 405, Payload = ErrorText ''Method not allowed''\<rparr>"

definition BadRequest :: Response where
  "BadRequest = \<lparr>Status = 400, Payload = ErrorText ''Invalid request body''\<rparr>"

text \<open>A Go map index expression: the zero value, here the empty string, for a missing key.\<close>

definition map_index :: "(string \<rightharpoonup> string) \<Rightarrow> string \<Rightarrow> string" where
  "map_index m k = (case m k of Some v \<Rightarrow> v | None \<Rightarrow> [])"

text \<open>The composite literal \<^verbatim>\<open>&Peer{ID: id, Address: address}\<close>: the other fields are zero.\<close>

definition new_Peer :: "string \<Rightarrow> string \<Rightarrow> Peer" where
  "new_Peer i a = \<lparr>ID = i, Address = a, LastSeen = zero_time, IsAlive = False\<rparr>"

section \<open>The service configuration and its advertised URL\<close>

record Service =
  SvcID :: string
  BindAddress :: string
  AdvertiseAddr :: string
  Port :: int
  SeedNodes :: "string list"

function fmt_nat :: "nat \<Rightarrow> string" where
  "fmt_nat n =
     (if n < 10 then [''0123456789'' ! n]
      else fmt_nat (n div 10) @ [''0123456789'' ! (n mod 10)])"
  by pat_completeness auto
termination
  by (relation "measure (\<lambda>n. n)") auto

declare fmt_nat.simps [simp del]

text \<open>The verb \<^verbatim>\<open>%d\<close> of \<^verbatim>\<open>fmt.Sprintf\<close> on a Go \<^verbatim>\<open>int\<close>.\<close>

definition fmt_d :: "int \<Rightarrow> string" where
  "fmt_d i = (if i < 0 then CHR ''-'' # fmt_nat (nat (- i)) else fmt_nat (nat i))"

definition GetFullAddress :: "Service \<Rightarrow> string" where
  "GetFullAddress s = ''http://'' @ AdvertiseAddr s @ '':'' @ fmt_d (Port s)"

section \<open>The handlers of package \<^verbatim>\<open>main\<close> (\<^verbatim>\<open>handlers.go\<close>)\<close>

definition main_HandleJoin ::
  "Service \<Rightarrow> string list \<Rightarrow> Peer Request \<Rightarrow> world \<Rightarrow> Response \<times> world" where
  "main_HandleJoin s ks r w =
     (if Method r \<noteq> MethodPost then (MethodNotAllowed, w)
      else case Body r of
        None \<Rightarrow> (BadRequest, w)
      | Some newPeer \<Rightarrow>
          let w1 = Add newPeer w;
              thisPeer = new_Peer (SvcID s) (GetFullAddress s);
              w2 = Add thisPeer w1
          in (\<lparr>Status = 200, Payload = PeersJSON (GetAll ks w2)\<rparr>, w2))"

text \<open>
  \<^verbatim>\<open>HandleHeartbeat\<close> and \<^verbatim>\<open>HandleGossip\<close> are the same code in \<^verbatim>\<open>handlers.go\<close> of package
  \<^verbatim>\<open>main\<close> and in package \<^verbatim>\<open>handlers\<close>, up to the name of the field that holds the local
  id (\<^verbatim>\<open>s.ID\<close>, \<^verbatim>\<open>h.serviceID\<close>), the argument \<open>self\<close> here.
\<close>

definition HandleHeartbeat :: "(string \<rightharpoonup> string) Request \<Rightarrow> world \<Rightarrow> Response \<times> world" where
  "HandleHeartbeat r w =
     (if Method r \<noteq> MethodPost then (MethodNotAllowed, w)
      else case Body r of
        None \<Rightarrow> (BadRequest, w)
      | Some heartbeat \<Rightarrow>
          let peerID = map_index heartbeat ''id'';
              peerAddress = map_index heartbeat ''address''
          in (case Get peerID w of
                Some _ \<Rightarrow> (\<lparr>Status = 200, Payload = NoBody\<rparr>, UpdateLastSeen peerID w)
              | None \<Rightarrow> (\<lparr>Status = 200, Payload = NoBody\<rparr>, Add (new_Peer peerID peerAddress) w)))"

text \<open>
  The merge loop of \<^verbatim>\<open>HandleGossip\<close> over the decoded \<^verbatim>\<open>[]*Peer\<close>. A JSON \<^verbatim>\<open>null\<close> in the
  array decodes to a nil pointer, and \<^verbatim>\<open>peer.ID\<close> panics on it: the flag is False then.
\<close>

fun gossip_merge :: "string \<Rightarrow> Peer option list \<Rightarrow> world \<Rightarrow> bool \<times> world" where
  "gossip_merge self [] w = (True, w)"
| "gossip_merge self (None # ps) w = (False, w)"
| "gossip_merge self (Some peer # ps) w =
     (if ID peer \<noteq> self then
        (case Get (ID peer) w of
           Some existing \<Rightarrow>
             if time_After (LastSeen peer) (LastSeen existing)
             then gossip_merge self ps (Add peer w)
             else gossip_merge self ps w
         | None \<Rightarrow> gossip_merge self ps (Add peer w))
      else gossip_merge self ps w)"

definition HandleGossip ::
  "string \<Rightarrow> Peer option list Request \<Rightarrow> world \<Rightarrow> Response outcome \<times> world" where
  "HandleGossip self r w =
     (if Method r \<noteq> MethodPost then (Returned MethodNotAllowed, w)
      else case Body r of
        None \<Rightarrow> (Returned BadRequest, w)
      | Some ps \<Rightarrow>
          (case gossip_merge self ps w of
             (True, w') \<Rightarrow> (Returned \<lparr>Status = 200, Payload = NoBody\<rparr>, w')
           | (False, w') \<Rightarrow> (Panicked, w')))"

definition main_HandleStatus ::
  "Service \<Rightarrow> string list \<Rightarrow> string list \<Rightarrow> string \<Rightarrow> world \<Rightarrow> Response" where
  "main_HandleStatus s ks1 ks2 method w =
     (if method \<noteq> MethodGet then MethodNotAllowed
      else
        let alivePeers = GetAlive ks1 w;
            allPeers = GetAll ks2 w
        in \<lparr>Status = 200,
            Payload = StatusJSON
              \<lparr>status_id = SvcID s,
               status_address = GetFullAddress s,
               total_peers = length allPeers,
               alive_peers = length alivePeers,
               status_peers = allPeers\<rparr>\<rparr>)"

section \<open>The handlers of package \<^verbatim>\<open>handlers\<close>\<close>

record Handler =
  serviceID :: string
  onPeerJoin :: "(Peer \<Rightarrow> world \<Rightarrow> world) option"

definition handlers_HandleJoin ::
  "Handler \<Rightarrow> string list \<Rightarrow> Peer Request \<Rightarrow> world \<Rightarrow> Response \<times> world" where
  "handlers_HandleJoin h ks r w =
     (if Method r \<noteq> MethodPost then (MethodNotAllowed, w)
      else case Body r of
        None \<Rightarrow> (BadRequest, w)
      | Some newPeer \<Rightarrow>
          let w1 = Add newPeer w;
              w2 = (case onPeerJoin h of
                      Some f \<Rightarrow> f (newPeer\<lparr>LastSeen := shd (clock w), IsAlive := True\<rparr>) w1
                    | None \<Rightarrow> w1)
          in (\<lparr>Status = 200, Payload = PeersJSON (GetAll ks w2)\<rparr>, w2))"

definition handlers_HandleStatus ::
  "Handler \<Rightarrow> string list \<Rightarrow> string list \<Rightarrow> string \<Rightarrow> world \<Rightarrow> Response" where
  "handlers_HandleStatus h ks1 ks2 method w =
     (if method \<noteq> MethodGet then MethodNotAllowed
      else
        let alivePeers = GetAlive ks1 w;
            allPeers = GetAll ks2 w
        in \<lparr>Status = 200,
            Payload = StatusJSON
              \<lparr>status_id = serviceID h,
               status_address = [],
               total_peers = length allPeers,
               alive_peers = length alivePeers,
               status_peers = allPeers\<rparr>\<rparr>)"

section \<open>Outbound join (\<^verbatim>\<open>sendJoinRequest\<close>, the same code in both service files)\<close>

text \<open>
  What comes back from the POST to \<^verbatim>\<open>/join\<close>: \<^verbatim>\<open>http.Post\<close> fails, or there is a response
  with a status code and a body that \<^verbatim>\<open>Decode\<close> turns into a \<^verbatim>\<open>[]*Peer\<close> or rejects.
\<close>

datatype join_reply =
  PostFailed
| JoinResponse nat "Peer option list option"

fun add_foreign :: "string \<Rightarrow> Peer option list \<Rightarrow> world \<Rightarrow> bool \<times> world" where
  "add_foreign self [] w = (True, w)"
| "add_foreign self (None # ps) w = (False, w)"
| "add_foreign self (Some p # ps) w =
     (if ID p \<noteq> self then add_foreign self ps (Add p w) else add_foreign self ps w)"

text \<open>The result is whether the function returned a nil error, or that it panicked.\<close>

definition sendJoinRequest ::
  "string \<Rightarrow> string \<Rightarrow> Peer \<Rightarrow> join_reply \<Rightarrow> world \<Rightarrow> outbound list \<times> bool outcome \<times> world" where
  "sendJoinRequest self peerAddr peer reply w =
     (let sent = [PostJoin (peerAddr @ ''/join'') peer]
      in case reply of
           PostFailed \<Rightarrow> (sent, Returned False, w)
         | JoinResponse code body \<Rightarrow>
             if code \<noteq> 200 then (sent, Returned False, w)
             else (case body of
                     None \<Rightarrow> (sent, Returned False, w)
                   | Some ps \<Rightarrow>
                       (case add_foreign self ps w of
                          (True, w') \<Rightarrow> (sent, Returned True, w')
                        | (False, w') \<Rightarrow> (sent, Panicked, w'))))"

section \<open>Broadcast discovery\<close>

record BroadcastMessage =
  MessageType :: string
  MsgID :: string
  MsgAddress :: string
  MsgPort :: int

definition DiscoveryMessage :: string where
  "DiscoveryMessage = ''CLIP_PEER_DISCOVERY''"

text \<open>
  \<^verbatim>\<open>handleBroadcast\<close> of package \<^verbatim>\<open>main\<close>. The datagram is given as what \<^verbatim>\<open>json.Unmarshal\<close>
  makes of it (\<open>None\<close> for an error), the network's answer to the join request as \<open>reply\<close>.
\<close>

definition main_handleBroadcast ::
  "Service \<Rightarrow> BroadcastMessage option \<Rightarrow> join_reply \<Rightarrow> world \<Rightarrow> outbound list \<times> world" where
  "main_handleBroadcast s datagram reply w =
     (case datagram of
        None \<Rightarrow> ([], w)
      | Some msg \<Rightarrow>
          if MsgID msg = SvcID s then ([], w)
          else if MessageType msg \<noteq> DiscoveryMessage then ([], w)
          else (case Get (MsgID msg) w of
                  Some _ \<Rightarrow> ([], w)
                | None \<Rightarrow>
                    let w1 = Add (new_Peer (MsgID msg) (MsgAddress msg)) w;
                        thisPeer = new_Peer (SvcID s) (GetFullAddress s);
                        (sent, err, w2) =
                          sendJoinRequest (SvcID s) (MsgAddress msg) thisPeer reply w1
                    in (sent, w2)))"

text \<open>
  \<^verbatim>\<open>handleBroadcast\<close> of package \<^verbatim>\<open>discovery\<close>, and the callback that \<^verbatim>\<open>NewService\<close> of
  package \<^verbatim>\<open>service\<close> gives it as \<^verbatim>\<open>onPeerFound\<close>. This listener sends nothing.
\<close>

record DiscoveryService =
  ds_serviceID :: string
  ds_serviceAddr :: string
  ds_servicePort :: int
  onPeerFound :: "(string \<Rightarrow> string \<Rightarrow> world \<Rightarrow> world) option"

definition discovery_handleBroadcast ::
  "DiscoveryService \<Rightarrow> BroadcastMessage option \<Rightarrow> world \<Rightarrow> outbound list \<times> world" where
  "discovery_handleBroadcast ds datagram w =
     (case datagram of
        None \<Rightarrow> ([], w)
      | Some msg \<Rightarrow>
          if MsgID msg = ds_serviceID ds then ([], w)
          else if MessageType msg \<noteq> DiscoveryMessage then ([], w)
          else (case onPeerFound ds of
                  Some f \<Rightarrow> ([], f (MsgID msg) (MsgAddress msg) w)
                | None \<Rightarrow> ([], w)))"

definition service_onPeerFound :: "string \<Rightarrow> string \<Rightarrow> world \<Rightarrow> world" where
  "service_onPeerFound i address w = Add (new_Peer i address) w"

text \<open>The callback that \<^verbatim>\<open>NewService\<close> gives the handlers as \<^verbatim>\<open>onPeerJoin\<close> only logs.\<close>

definition service_onPeerJoin :: "Peer \<Rightarrow> world \<Rightarrow> world" where
  "service_onPeerJoin p w = w"

text \<open>The two objects as \<^verbatim>\<open>NewService\<close> of package \<^verbatim>\<open>service\<close> builds them for a node.\<close>

definition service_handler :: "string \<Rightarrow> Handler" where
  "service_handler self = \<lparr>serviceID = self, onPeerJoin = Some service_onPeerJoin\<rparr>"

definition service_discovery :: "string \<Rightarrow> string \<Rightarrow> int \<Rightarrow> DiscoveryService" where
  "service_discovery self addr port =
     \<lparr>ds_serviceID = self, ds_serviceAddr = addr, ds_servicePort = port,
      onPeerFound = Some service_onPeerFound\<rparr>"

section \<open>The periodic loops (\<^verbatim>\<open>checkPeerHealth\<close>, \<^verbatim>\<open>gossipWithPeers\<close>)\<close>

text \<open>
  One tick of the health loop (the same code in both service files). The snapshot holds
  pointers to the records of the map; in one tick the only writes are those of
  \<^verbatim>\<open>MarkDead\<close> on the record being visited, so the loop reads the fields it tests as they
  were when the snapshot was taken. The timeout is the constant \<^verbatim>\<open>PeerTimeout\<close> in package
  \<^verbatim>\<open>main\<close> and \<^verbatim>\<open>s.config.PeerTimeout\<close> in package \<^verbatim>\<open>service\<close>.
\<close>

definition PeerTimeout :: Duration where
  "PeerTimeout = 15 * 1000000000"

fun health_loop :: "time \<Rightarrow> Duration \<Rightarrow> Peer list \<Rightarrow> world \<Rightarrow> world" where
  "health_loop now timeout [] w = w"
| "health_loop now timeout (peer # ps) w =
     (if time_Sub now (LastSeen peer) > timeout then
        (if IsAlive peer then health_loop now timeout ps (MarkDead (ID peer) w)
         else health_loop now timeout ps w)
      else health_loop now timeout ps w)"

definition checkPeerHealth :: "Duration \<Rightarrow> string list \<Rightarrow> world \<Rightarrow> world" where
  "checkPeerHealth timeout ks w =
     (let snapshot = GetAll ks w;
          now = shd (clock w)
      in health_loop now timeout snapshot (w\<lparr>clock := stl (clock w)\<rparr>))"

text \<open>
  One tick of the gossip loop (the same code in both service files): the messages it
  hands to goroutines for sending. The \<^verbatim>\<open>for\<close> loop over the alive snapshot ends with
  \<^verbatim>\<open>break\<close>, so its body runs for the first element only.
\<close>

definition gossipWithPeers :: "string list \<Rightarrow> string list \<Rightarrow> world \<Rightarrow> outbound list" where
  "gossipWithPeers ks1 ks2 w =
     (let alive = GetAlive ks1 w
      in if length alive = 0 then []
         else
           let myPeers = GetAll ks2 w
           in (case alive of
                 [] \<Rightarrow> []
               | p # _ \<Rightarrow> [PostGossip (Address p @ ''/gossip'') myPeers]))"

section \<open>A node as a transition system\<close>

text \<open>
  What reaches a node from outside: a request on \<^verbatim>\<open>/join\<close> (with the order in which
  \<^verbatim>\<open>GetAll\<close> ranges over the map for the response), on \<^verbatim>\<open>/heartbeat\<close> or on \<^verbatim>\<open>/gossip\<close>, as
  \<^verbatim>\<open>SetupRoutes\<close> dispatches them, and a datagram read by the broadcast listener (with the
  answer the network gives if the listener sends a join request).
\<close>

datatype event =
  JoinRequest "string list" "Peer Request"
| HeartbeatRequest "(string \<rightharpoonup> string) Request"
| GossipRequest "Peer option list Request"
| Datagram "BroadcastMessage option" join_reply

text \<open>A node of package \<^verbatim>\<open>main\<close>.\<close>

fun main_step :: "Service \<Rightarrow> event \<Rightarrow> world \<Rightarrow> world" where
  "main_step s (JoinRequest ks r) w = snd (main_HandleJoin s ks r w)"
| "main_step s (HeartbeatRequest r) w = snd (HandleHeartbeat r w)"
| "main_step s (GossipRequest r) w = snd (HandleGossip (SvcID s) r w)"
| "main_step s (Datagram d reply) w = snd (main_handleBroadcast s d reply w)"

text \<open>A node as \<^verbatim>\<open>NewService\<close> of package \<^verbatim>\<open>service\<close> wires it.\<close>

fun service_step :: "string \<Rightarrow> string \<Rightarrow> int \<Rightarrow> event \<Rightarrow> world \<Rightarrow> world" where
  "service_step self addr port (JoinRequest ks r) w =
     snd (handlers_HandleJoin (service_handler self) ks r w)"
| "service_step self addr port (HeartbeatRequest r) w = snd (HandleHeartbeat r w)"
| "service_step self addr port (GossipRequest r) w = snd (HandleGossip self r w)"
| "service_step self addr port (Datagram d reply) w =
     snd (discovery_handleBroadcast (service_discovery self addr port) d w)"

text \<open>The event is a decodable POST on \<^verbatim>\<open>/join\<close> or \<^verbatim>\<open>/heartbeat\<close> that carries the id \<open>i\<close>.\<close>

fun names_id :: "string \<Rightarrow> event \<Rightarrow> bool" where
  "names_id i (JoinRequest ks r) =
     (case Body r of Some p \<Rightarrow> Method r = MethodPost \<and> ID p = i | None \<Rightarrow> False)"
| "names_id i (HeartbeatRequest r) =
     (case Body r of
        Some hb \<Rightarrow> Method r = MethodPost \<and> map_index hb ''id'' = i
      | None \<Rightarrow> False)"
| "names_id i (GossipRequest r) = False"
| "names_id i (Datagram d reply) = False"

text \<open>The event is a decodable POST on \<^verbatim>\<open>/join\<close>.\<close>

fun accepted_join :: "event \<Rightarrow> bool" where
  "accepted_join (JoinRequest ks r) = (Method r = MethodPost \<and> Body r \<noteq> None)"
| "accepted_join (HeartbeatRequest r) = False"
| "accepted_join (GossipRequest r) = False"
| "accepted_join (Datagram d reply) = False"

text \<open>No record is stored under the id \<open>self\<close> and no stored record carries it.\<close>

definition self_excluded :: "string \<Rightarrow> (string \<rightharpoonup> Peer) \<Rightarrow> bool" where
  "self_excluded self m \<longleftrightarrow> (\<forall>k r. m k = Some r \<longrightarrow> k \<noteq> self \<and> ID r \<noteq> self)"

section \<open>Example nodes and messages\<close>

definition second :: Duration where
  "second = 1000000000"

definition clock_from :: "time \<Rightarrow> time stream" where
  "clock_from t = siterate (\<lambda>x. x + second) t"

definition node_A :: Service where
  "node_A = \<lparr>SvcID = ''A'', BindAddress = ''0.0.0.0'', AdvertiseAddr = ''10.0.0.1'',
             Port = 8080, SeedNodes = []\<rparr>"

definition peer_B :: Peer where
  "peer_B = \<lparr>ID = ''B'', Address = ''http://10.0.0.2:8081'', LastSeen = 10 * second,
             IsAlive = True\<rparr>"

definition peer_C :: Peer where
  "peer_C = \<lparr>ID = ''C'', Address = ''http://10.0.0.3:8082'', LastSeen = 40 * second,
             IsAlive = True\<rparr>"

definition peer_D :: Peer where
  "peer_D = \<lparr>ID = ''D'', Address = ''http://10.0.0.4:8083'', LastSeen = 2 * second,
             IsAlive = False\<rparr>"

definition empty_world :: world where
  "empty_world = \<lparr>peers = NewPeerList, clock = clock_from (50 * second)\<rparr>"

definition world_BCD :: world where
  "world_BCD =
     \<lparr>peers = [''B'' \<mapsto> peer_B, ''C'' \<mapsto> peer_C, ''D'' \<mapsto> peer_D],
      clock = clock_from (50 * second)\<rparr>"

definition stale_B :: Peer where
  "stale_B = \<lparr>ID = ''B'', Address = ''http://10.0.0.2:8081'', LastSeen = 3 * second,
              IsAlive = True\<rparr>"

definition fresh_B :: Peer where
  "fresh_B = \<lparr>ID = ''B'', Address = ''http://10.0.0.2:9191'', LastSeen = 45 * second,
              IsAlive = True\<rparr>"

definition peer_E :: Peer where
  "peer_E = \<lparr>ID = ''E'', Address = ''http://10.0.0.5:8084'', LastSeen = 5 * second,
             IsAlive = False\<rparr>"

definition announce :: "string \<Rightarrow> string \<Rightarrow> BroadcastMessage" where
  "announce i a = \<lparr>MessageType = ''CLIP_PEER_DISCOVERY'', MsgID = i, MsgAddress = a, MsgPort = 8080\<rparr>"

definition heartbeat_C :: "string \<rightharpoonup> string" where
  "heartbeat_C = [''id'' \<mapsto> ''C'', ''address'' \<mapsto> ''http://10.0.0.3:8082'']"

definition heartbeat_no_id :: "string \<rightharpoonup> string" where
  "heartbeat_no_id = [''address'' \<mapsto> ''http://10.0.0.9:9000'']"

definition post :: "'a \<Rightarrow> 'a Request" where
  "post b = \<lparr>Method = ''POST'', Body = Some b\<rparr>"

definition events_service :: "event list" where
  "events_service =
     [JoinRequest [''B''] (post peer_B),
      HeartbeatRequest (post heartbeat_C),
      GossipRequest (post [Some (new_Peer ''A'' ''http://10.0.0.1:8080''), Some peer_E]),
      Datagram (Some (announce ''A'' ''http://10.0.0.1:8080'')) PostFailed,
      Datagram (Some (announce ''D'' ''http://10.0.0.4:8083'')) PostFailed]"

definition events_main :: "event list" where
  "events_main =
     [HeartbeatRequest (post heartbeat_C),
      GossipRequest (post [Some (new_Peer ''A'' ''http://10.0.0.1:8080''), Some peer_E]),
      Datagram (Some (announce ''D'' ''http://10.0.0.4:8083''))
        (JoinResponse 200 (Some [Some (new_Peer ''A'' ''http://10.0.0.1:8080''), Some peer_B]))]"

section \<open>Properties of the registry\<close>

lemma MarkDead_absent: "peers w i = None \<Longrightarrow> MarkDead i w = w"
  by (simp add: MarkDead_def)

lemma MarkDead_present:
  "peers w i = Some r \<Longrightarrow> MarkDead i w = w\<lparr>peers := (peers w)(i \<mapsto> r\<lparr>IsAlive := False\<rparr>)\<rparr>"
  by (simp add: MarkDead_def)

lemma MarkDead_other: "j \<noteq> i \<Longrightarrow> peers (MarkDead i w) j = peers w j"
  by (simp add: MarkDead_def split: option.splits)

lemma MarkDead_clock: "clock (MarkDead i w) = clock w"
  by (simp add: MarkDead_def split: option.splits)

lemma MarkDead_twice: "MarkDead i (MarkDead i w) = MarkDead i w"
  by (cases "peers w i") (simp_all add: MarkDead_def)

text \<open>
  C5. \<^verbatim>\<open>MarkDead(id)\<close> on a present id stores the same record with \<open>IsAlive\<close> false and
  with its \<open>LastSeen\<close>, \<open>ID\<close> and \<open>Address\<close> as they were, touches no other record and reads
  no clock; a second call changes nothing more; on an absent id the state is unchanged.
\<close>

theorem MarkDead_frame_idempotent:
  "(peers w i = Some r \<longrightarrow>
      (\<exists>r'. peers (MarkDead i w) i = Some r' \<and> IsAlive r' = False \<and>
            LastSeen r' = LastSeen r \<and> ID r' = ID r \<and> Address r' = Address r)) \<and>
   (\<forall>j. j \<noteq> i \<longrightarrow> peers (MarkDead i w) j = peers w j) \<and>
   clock (MarkDead i w) = clock w \<and>
   MarkDead i (MarkDead i w) = MarkDead i w \<and>
   (peers w i = None \<longrightarrow> MarkDead i w = w)"
  by (simp add: MarkDead_present MarkDead_absent MarkDead_other MarkDead_clock MarkDead_twice)

lemma health_loop_other:
  "\<forall>p \<in> set ps. ID p \<noteq> k \<Longrightarrow> peers (health_loop now t ps w) k = peers w k"
proof (induction ps arbitrary: w)
  case Nil
  then show ?case by simp
next
  case (Cons p ps)
  then have "k \<noteq> ID p" and "\<forall>x \<in> set ps. ID x \<noteq> k" by auto
  then show ?case using Cons.IH by (simp add: MarkDead_other)
qed

lemma health_loop_clock: "clock (health_loop now t ps w) = clock w"
  by (induction ps arbitrary: w) (simp_all add: MarkDead_clock)

lemma health_loop_visited:
  "distinct (map ID ps) \<Longrightarrow> \<forall>p \<in> set ps. peers w (ID p) = Some p \<Longrightarrow> q \<in> set ps \<Longrightarrow>
   peers (health_loop now t ps w) (ID q) =
     Some (if t < time_Sub now (LastSeen q) \<and> IsAlive q then q\<lparr>IsAlive := False\<rparr> else q)"
proof (induction ps arbitrary: w)
  case Nil
  then show ?case by simp
next
  case (Cons p ps)
  let ?w1 = "if t < time_Sub now (LastSeen p) \<and> IsAlive p then MarkDead (ID p) w else w"
  have step: "health_loop now t (p # ps) w = health_loop now t ps ?w1"
    by simp
  have fresh: "\<forall>x \<in> set ps. ID x \<noteq> ID p"
  proof
    fix x assume "x \<in> set ps"
    then have "ID x \<in> set (map ID ps)" by simp
    moreover have "ID p \<notin> set (map ID ps)" using Cons.prems(1) by simp
    ultimately show "ID x \<noteq> ID p" by metis
  qed
  have kept: "\<forall>x \<in> set ps. peers ?w1 (ID x) = Some x"
    using Cons.prems(2) fresh by (simp add: MarkDead_other)
  show ?case
  proof (cases "q = p")
    case True
    have "peers (health_loop now t ps ?w1) (ID p) = peers ?w1 (ID p)"
      using fresh by (rule health_loop_other)
    moreover have "peers w (ID p) = Some p"
      using Cons.prems(2) by simp
    ultimately show ?thesis
      unfolding step True by (simp add: MarkDead_present)
  next
    case False
    then have "q \<in> set ps" using Cons.prems(3) by simp
    moreover have "distinct (map ID ps)" using Cons.prems(1) by simp
    ultimately show ?thesis
      unfolding step using Cons.IH [of ?w1] kept by blast
  qed
qed

lemma GetAll_set:
  "set (GetAll ks w) = {r. \<exists>k \<in> set ks. peers w k = Some r}"
  by (force simp: GetAll_def List.map_filter_def image_iff)

lemma GetAll_distinct:
  "keyed (peers w) \<Longrightarrow> distinct ks \<Longrightarrow> distinct (map ID (GetAll ks w))"
proof (induction ks)
  case Nil
  then show ?case by (simp add: GetAll_def List.map_filter_simps)
next
  case (Cons k ks)
  show ?case
  proof (cases "peers w k")
    case None
    then show ?thesis using Cons by (simp add: GetAll_def List.map_filter_simps)
  next
    case (Some r)
    have "ID r = k" using Some Cons.prems(1) by (simp add: keyed_def)
    moreover have "\<forall>x \<in> set (GetAll ks w). ID x \<in> set ks"
      using Cons.prems(1) by (auto simp: GetAll_set keyed_def)
    ultimately have "ID r \<notin> ID ` set (GetAll ks w)"
      using Cons.prems(2) by auto
    then show ?thesis
      using Some Cons by (simp add: GetAll_def List.map_filter_simps)
  qed
qed

text \<open>
  C4. One health tick, for a registry whose records are stored under their own ids and a
  snapshot taken in any order of the runtime: a record that is alive and whose age
  \<^verbatim>\<open>now.Sub(peer.LastSeen)\<close> exceeds the timeout stays in the registry with \<open>IsAlive\<close> false
  and its other fields as they were; every other record (age within the timeout, or dead
  already) is unchanged; the set of stored ids is the same after the tick.
\<close>

theorem checkPeerHealth_tick:
  assumes "range_order (peers w) ks" and "keyed (peers w)"
  shows "(\<forall>k r. peers w k = Some r \<longrightarrow>
            peers (checkPeerHealth timeout ks w) k =
              Some (if timeout < time_Sub (shd (clock w)) (LastSeen r) \<and> IsAlive r
                    then r\<lparr>IsAlive := False\<rparr> else r)) \<and>
         dom (peers (checkPeerHealth timeout ks w)) = dom (peers w)"
proof -
  let ?now = "shd (clock w)"
  let ?w1 = "w\<lparr>clock := stl (clock w)\<rparr>"
  let ?snap = "GetAll ks w"
  have run: "checkPeerHealth timeout ks w = health_loop ?now timeout ?snap ?w1"
    by (simp add: checkPeerHealth_def)
  have d: "distinct (map ID ?snap)"
    using assms by (simp add: GetAll_distinct range_order_def)
  have stored: "\<forall>p \<in> set ?snap. peers ?w1 (ID p) = Some p"
    using assms(2) by (auto simp: GetAll_set keyed_def)
  have present: "peers (checkPeerHealth timeout ks w) k =
      Some (if timeout < time_Sub ?now (LastSeen r) \<and> IsAlive r then r\<lparr>IsAlive := False\<rparr> else r)"
    if "peers w k = Some r" for k r
  proof -
    have "k \<in> set ks" using that assms(1) by (auto simp: range_order_def)
    then have "r \<in> set ?snap" using that by (auto simp: GetAll_set)
    moreover have "ID r = k" using that assms(2) by (simp add: keyed_def)
    ultimately show ?thesis
      unfolding run using health_loop_visited [OF d stored, of r ?now timeout] by simp
  qed
  have absent: "peers (checkPeerHealth timeout ks w) k = None" if "peers w k = None" for k
  proof -
    have "\<forall>p \<in> set ?snap. ID p \<noteq> k"
      using that assms(2) by (auto simp: GetAll_set keyed_def)
    then show ?thesis
      unfolding run using that by (simp add: health_loop_other)
  qed
  have "dom (peers (checkPeerHealth timeout ks w)) = dom (peers w)"
  proof (rule set_eqI)
    fix k
    show "k \<in> dom (peers (checkPeerHealth timeout ks w)) \<longleftrightarrow> k \<in> dom (peers w)"
      by (cases "peers w k") (auto simp: present absent)
  qed
  then show ?thesis using present by blast
qed


lemma world_BCD_keyed: "keyed (peers world_BCD)"
  by (auto simp: keyed_def world_BCD_def peer_B_def peer_C_def peer_D_def split: if_splits)

lemma world_BCD_order: "range_order (peers world_BCD) [''D'', ''B'', ''C'']"
  by (auto simp: range_order_def world_BCD_def)

theorem MarkDead_frame_idempotent_witness:
  "peers world_BCD ''B'' = Some peer_B \<and>
   peers (MarkDead ''B'' world_BCD) ''B'' = Some (peer_B\<lparr>IsAlive := False\<rparr>) \<and>
   peers (MarkDead ''B'' world_BCD) ''C'' = Some peer_C \<and>
   peers world_BCD ''E'' = None \<and> MarkDead ''E'' world_BCD = world_BCD"
proof -
  have b: "peers world_BCD ''B'' = Some peer_B" and e: "peers world_BCD ''E'' = None"
    and c: "peers world_BCD ''C'' = Some peer_C"
    by (simp_all add: world_BCD_def)
  obtain r' where r': "peers (MarkDead ''B'' world_BCD) ''B'' = Some r'" "IsAlive r' = False"
      "LastSeen r' = LastSeen peer_B" "ID r' = ID peer_B" "Address r' = Address peer_B"
    using MarkDead_frame_idempotent [of world_BCD "''B''" peer_B] b by blast
  have "r' = peer_B\<lparr>IsAlive := False\<rparr>"
    using r' by (cases r') (simp add: peer_B_def)
  moreover have "peers (MarkDead ''B'' world_BCD) ''C'' = peers world_BCD ''C''"
    using MarkDead_frame_idempotent [of world_BCD "''B''" peer_B] by simp
  moreover have "MarkDead ''E'' world_BCD = world_BCD"
    using MarkDead_frame_idempotent [of world_BCD "''E''" peer_B] e by simp
  ultimately show ?thesis using b c e r'(1) by simp
qed

theorem checkPeerHealth_tick_witness:
  "range_order (peers world_BCD) [''D'', ''B'', ''C''] \<and> keyed (peers world_BCD) \<and>
   peers (checkPeerHealth PeerTimeout [''D'', ''B'', ''C''] world_BCD) ''B''
     = Some (peer_B\<lparr>IsAlive := False\<rparr>) \<and>
   peers (checkPeerHealth PeerTimeout [''D'', ''B'', ''C''] world_BCD) ''C'' = Some peer_C \<and>
   peers (checkPeerHealth PeerTimeout [''D'', ''B'', ''C''] world_BCD) ''D'' = Some peer_D \<and>
   dom (peers (checkPeerHealth PeerTimeout [''D'', ''B'', ''C''] world_BCD)) = {''B'', ''C'', ''D''}"
proof -
  note tick = checkPeerHealth_tick [OF world_BCD_order world_BCD_keyed, of PeerTimeout]
  have b: "peers world_BCD ''B'' = Some peer_B" and c: "peers world_BCD ''C'' = Some peer_C"
    and d: "peers world_BCD ''D'' = Some peer_D"
    by (simp_all add: world_BCD_def)
  have now: "shd (clock world_BCD) = 50 * second"
    by (simp add: world_BCD_def clock_from_def)
  have "peers (checkPeerHealth PeerTimeout [''D'', ''B'', ''C''] world_BCD) ''B''
          = Some (peer_B\<lparr>IsAlive := False\<rparr>)"
    using tick b now
    by (simp add: time_Sub_def maxDuration_def minDuration_def PeerTimeout_def second_def peer_B_def)
  moreover have "peers (checkPeerHealth PeerTimeout [''D'', ''B'', ''C''] world_BCD) ''C'' = Some peer_C"
    using tick c now
    by (simp add: time_Sub_def maxDuration_def minDuration_def PeerTimeout_def second_def peer_C_def)
  moreover have "peers (checkPeerHealth PeerTimeout [''D'', ''B'', ''C''] world_BCD) ''D'' = Some peer_D"
    using tick d now
    by (simp add: time_Sub_def maxDuration_def minDuration_def PeerTimeout_def second_def peer_D_def)
  moreover have "dom (peers (checkPeerHealth PeerTimeout [''D'', ''B'', ''C''] world_BCD)) = {''B'', ''C'', ''D''}"
    using tick by (auto simp: world_BCD_def)
  ultimately show ?thesis
    using world_BCD_order world_BCD_keyed by simp
qed

text \<open>
  C6. One gossip tick sends nothing when the alive snapshot is empty; otherwise it sends
  exactly one message, to \<^verbatim>\<open>/gossip\<close> at the address of the first peer of the alive
  snapshot, and its body is the snapshot of all records.
\<close>

theorem gossipWithPeers_one_target:
  "(GetAlive ks1 w = [] \<longrightarrow> gossipWithPeers ks1 ks2 w = []) \<and>
   (GetAlive ks1 w \<noteq> [] \<longrightarrow>
      gossipWithPeers ks1 ks2 w =
        [PostGossip (Address (hd (GetAlive ks1 w)) @ ''/gossip'') (GetAll ks2 w)])"
  by (cases "GetAlive ks1 w") (simp_all add: gossipWithPeers_def)

theorem gossipWithPeers_one_target_witness:
  "GetAlive [''D'', ''B'', ''C''] world_BCD = [peer_B, peer_C] \<and>
   gossipWithPeers [''D'', ''B'', ''C''] [''C'', ''D'', ''B''] world_BCD =
     [PostGossip ''http://10.0.0.2:8081/gossip'' [peer_C, peer_D, peer_B]] \<and>
   GetAlive [''D''] world_BCD = [] \<and> gossipWithPeers [''D''] [''D''] world_BCD = []"
proof -
  have a: "GetAlive [''D'', ''B'', ''C''] world_BCD = [peer_B, peer_C]"
    by (simp add: GetAlive_def List.map_filter_simps world_BCD_def peer_B_def peer_C_def peer_D_def)
  have n: "GetAlive [''D''] world_BCD = []"
    by (simp add: GetAlive_def List.map_filter_simps world_BCD_def peer_D_def)
  have g: "GetAll [''C'', ''D'', ''B''] world_BCD = [peer_C, peer_D, peer_B]"
    by (simp add: GetAll_def List.map_filter_simps world_BCD_def)
  show ?thesis
    using gossipWithPeers_one_target [of "[''D'', ''B'', ''C'']" world_BCD "[''C'', ''D'', ''B'']"]
      gossipWithPeers_one_target [of "[''D'']" world_BCD "[''D'']"] a n g
    by (simp add: peer_B_def)
qed

text \<open>
  C7. On \<^verbatim>\<open>/join\<close> (both packages), \<^verbatim>\<open>/heartbeat\<close> and \<^verbatim>\<open>/gossip\<close>, a request whose method is
  not POST is answered 405 and a POST whose body does not decode is answered 400; in both
  cases the state after the handler is the state before it (no record written, no clock
  read).
\<close>

theorem protocol_errors_no_mutation:
  "(Method rj \<noteq> ''POST'' \<longrightarrow>
      Status (fst (main_HandleJoin s ks rj w)) = 405 \<and> snd (main_HandleJoin s ks rj w) = w \<and>
      Status (fst (handlers_HandleJoin h ks rj w)) = 405 \<and> snd (handlers_HandleJoin h ks rj w) = w) \<and>
   (Method rj = ''POST'' \<and> Body rj = None \<longrightarrow>
      Status (fst (main_HandleJoin s ks rj w)) = 400 \<and> snd (main_HandleJoin s ks rj w) = w \<and>
      Status (fst (handlers_HandleJoin h ks rj w)) = 400 \<and> snd (handlers_HandleJoin h ks rj w) = w) \<and>
   (Method rh \<noteq> ''POST'' \<longrightarrow>
      Status (fst (HandleHeartbeat rh w)) = 405 \<and> snd (HandleHeartbeat rh w) = w) \<and>
   (Method rh = ''POST'' \<and> Body rh = None \<longrightarrow>
      Status (fst (HandleHeartbeat rh w)) = 400 \<and> snd (HandleHeartbeat rh w) = w) \<and>
   (Method rg \<noteq> ''POST'' \<longrightarrow>
      (\<exists>resp. fst (HandleGossip self rg w) = Returned resp \<and> Status resp = 405) \<and>
      snd (HandleGossip self rg w) = w) \<and>
   (Method rg = ''POST'' \<and> Body rg = None \<longrightarrow>
      (\<exists>resp. fst (HandleGossip self rg w) = Returned resp \<and> Status resp = 400) \<and>
      snd (HandleGossip self rg w) = w)"
  by (simp add: main_HandleJoin_def handlers_HandleJoin_def HandleHeartbeat_def HandleGossip_def
      MethodPost_def MethodNotAllowed_def BadRequest_def)

theorem protocol_errors_no_mutation_witness:
  "Status (fst (main_HandleJoin node_A [] \<lparr>Method = ''GET'', Body = None\<rparr> world_BCD)) = 405 \<and>
   snd (main_HandleJoin node_A [] \<lparr>Method = ''GET'', Body = None\<rparr> world_BCD) = world_BCD \<and>
   Status (fst (handlers_HandleJoin (service_handler ''A'') [] \<lparr>Method = ''POST'', Body = None\<rparr> world_BCD)) = 400 \<and>
   snd (handlers_HandleJoin (service_handler ''A'') [] \<lparr>Method = ''POST'', Body = None\<rparr> world_BCD) = world_BCD \<and>
   Status (fst (HandleHeartbeat \<lparr>Method = ''PUT'', Body = Some Map.empty\<rparr> world_BCD)) = 405 \<and>
   snd (HandleHeartbeat \<lparr>Method = ''POST'', Body = None\<rparr> world_BCD) = world_BCD \<and>
   fst (HandleGossip ''A'' \<lparr>Method = ''GET'', Body = Some [Some peer_C]\<rparr> world_BCD) = Returned MethodNotAllowed \<and>
   snd (HandleGossip ''A'' \<lparr>Method = ''POST'', Body = None\<rparr> world_BCD) = world_BCD"
proof -
  note j1 = protocol_errors_no_mutation [of "\<lparr>Method = ''GET'', Body = None\<rparr>" node_A "[]" world_BCD
      "service_handler ''A''" "\<lparr>Method = ''PUT'', Body = Some Map.empty\<rparr>"
      "\<lparr>Method = ''GET'', Body = Some [Some peer_C]\<rparr>" "''A''"]
  note j2 = protocol_errors_no_mutation [of "\<lparr>Method = ''POST'', Body = None\<rparr>" node_A "[]" world_BCD
      "service_handler ''A''" "\<lparr>Method = ''POST'', Body = None\<rparr>"
      "\<lparr>Method = ''POST'', Body = None\<rparr>" "''A''"]
  have "fst (HandleGossip ''A'' \<lparr>Method = ''GET'', Body = Some [Some peer_C]\<rparr> world_BCD) = Returned MethodNotAllowed"
    by (simp add: HandleGossip_def MethodPost_def)
  then show ?thesis using j1 j2 by simp
qed

section \<open>Self-exclusion\<close>

lemma Add_other: "k \<noteq> ID p \<Longrightarrow> peers (Add p w) k = peers w k"
  by (simp add: Add_def)

lemma Add_same:
  "peers (Add p w) (ID p) = Some (p\<lparr>LastSeen := shd (clock w), IsAlive := True\<rparr>)"
  by (simp add: Add_def)

lemma Add_clock: "clock (Add p w) = stl (clock w)"
  by (simp add: Add_def)

lemma Add_keyed: "keyed (peers w) \<Longrightarrow> keyed (peers (Add p w))"
  by (simp add: keyed_def Add_def)

lemma UpdateLastSeen_keyed: "keyed (peers w) \<Longrightarrow> keyed (peers (UpdateLastSeen i w))"
  by (auto simp: keyed_def UpdateLastSeen_def split: option.splits)

lemma UpdateLastSeen_absent: "peers w k = None \<Longrightarrow> peers (UpdateLastSeen i w) k = None"
  by (auto simp: UpdateLastSeen_def split: option.splits)

text \<open>The invariant: records under their own ids, none under the local id.\<close>

lemma Add_inv:
  "keyed (peers w) \<and> peers w self = None \<Longrightarrow> ID p \<noteq> self \<Longrightarrow>
   keyed (peers (Add p w)) \<and> peers (Add p w) self = None"
  by (simp add: Add_keyed Add_other)

lemma gossip_merge_inv:
  "keyed (peers w) \<and> peers w self = None \<Longrightarrow>
   keyed (peers (snd (gossip_merge self ps w))) \<and> peers (snd (gossip_merge self ps w)) self = None"
proof (induction self ps w rule: gossip_merge.induct)
  case (1 self w)
  then show ?case by simp
next
  case (2 self ps w)
  then show ?case by simp
next
  case (3 self peer ps w)
  show ?case
  proof (cases "ID peer = self")
    case True
    then show ?thesis using 3 by simp
  next
    case False
    then have "keyed (peers (Add peer w)) \<and> peers (Add peer w) self = None"
      using "3.prems" by (intro Add_inv)
    then show ?thesis
      using False 3 by (simp split: option.splits)
  qed
qed

lemma add_foreign_inv:
  "keyed (peers w) \<and> peers w self = None \<Longrightarrow>
   keyed (peers (snd (add_foreign self ps w))) \<and> peers (snd (add_foreign self ps w)) self = None"
proof (induction self ps w rule: add_foreign.induct)
  case (1 self w)
  then show ?case by simp
next
  case (2 self ps w)
  then show ?case by simp
next
  case (3 self p ps w)
  show ?case
  proof (cases "ID p = self")
    case True
    then show ?thesis using 3 by simp
  next
    case False
    then have "keyed (peers (Add p w)) \<and> peers (Add p w) self = None"
      using "3.prems" by (intro Add_inv)
    then show ?thesis using False 3 by simp
  qed
qed

lemma HandleGossip_accepted:
  "Method r = MethodPost \<Longrightarrow> Body r = Some ps \<Longrightarrow>
   HandleGossip self r w =
     (if fst (gossip_merge self ps w) then Returned \<lparr>Status = 200, Payload = NoBody\<rparr> else Panicked,
      snd (gossip_merge self ps w))"
  by (cases "gossip_merge self ps w") (simp add: HandleGossip_def)

lemma HandleGossip_rejected:
  "Method r \<noteq> MethodPost \<or> Body r = None \<Longrightarrow> snd (HandleGossip self r w) = w"
  by (auto simp: HandleGossip_def)

lemma HandleGossip_inv:
  "keyed (peers w) \<and> peers w self = None \<Longrightarrow>
   keyed (peers (snd (HandleGossip self r w))) \<and> peers (snd (HandleGossip self r w)) self = None"
proof -
  assume inv: "keyed (peers w) \<and> peers w self = None"
  show ?thesis
  proof (cases "Method r \<noteq> MethodPost \<or> Body r = None")
    case True
    then show ?thesis using inv by (simp only: HandleGossip_rejected)
  next
    case False
    then obtain ps where "Method r = MethodPost" "Body r = Some ps" by auto
    then have "snd (HandleGossip self r w) = snd (gossip_merge self ps w)"
      by (simp add: HandleGossip_accepted)
    then show ?thesis using gossip_merge_inv [OF inv, of ps] by simp
  qed
qed

lemma HandleHeartbeat_inv:
  "keyed (peers w) \<and> peers w self = None \<Longrightarrow> \<not> names_id self (HeartbeatRequest r) \<Longrightarrow>
   keyed (peers (snd (HandleHeartbeat r w))) \<and> peers (snd (HandleHeartbeat r w)) self = None"
  by (auto simp: HandleHeartbeat_def Let_def Get_def new_Peer_def Add_keyed Add_other
      UpdateLastSeen_keyed UpdateLastSeen_absent split: option.splits)

lemma handlers_HandleJoin_inv:
  "keyed (peers w) \<and> peers w self = None \<Longrightarrow> \<not> names_id self (JoinRequest ks r) \<Longrightarrow>
   keyed (peers (snd (handlers_HandleJoin (service_handler self) ks r w))) \<and>
   peers (snd (handlers_HandleJoin (service_handler self) ks r w)) self = None"
  by (auto simp: handlers_HandleJoin_def Let_def service_handler_def service_onPeerJoin_def
      Add_keyed Add_other split: option.splits)

lemma sendJoinRequest_world:
  "snd (snd (sendJoinRequest self a p reply w)) =
     (case reply of
        PostFailed \<Rightarrow> w
      | JoinResponse code body \<Rightarrow>
          (case body of
             None \<Rightarrow> w
           | Some ps \<Rightarrow> if code = 200 then snd (add_foreign self ps w) else w))"
proof (cases reply)
  case PostFailed
  then show ?thesis by (simp add: sendJoinRequest_def Let_def)
next
  case (JoinResponse code body)
  show ?thesis
  proof (cases body)
    case None
    then show ?thesis using JoinResponse by (simp add: sendJoinRequest_def Let_def)
  next
    case (Some ps)
    then show ?thesis using JoinResponse
      by (cases "add_foreign self ps w") (simp add: sendJoinRequest_def Let_def split: bool.splits)
  qed
qed

lemma sendJoinRequest_inv:
  "keyed (peers w) \<and> peers w self = None \<Longrightarrow>
   keyed (peers (snd (snd (sendJoinRequest self a p reply w)))) \<and>
   peers (snd (snd (sendJoinRequest self a p reply w))) self = None"
proof -
  assume inv: "keyed (peers w) \<and> peers w self = None"
  have "snd (snd (sendJoinRequest self a p reply w)) = w \<or>
        (\<exists>ps. snd (snd (sendJoinRequest self a p reply w)) = snd (add_foreign self ps w))"
    by (auto simp: sendJoinRequest_world split: join_reply.splits option.splits)
  then show ?thesis using inv add_foreign_inv [OF inv] by auto
qed

lemma main_handleBroadcast_inv:
  assumes inv: "keyed (peers w) \<and> peers w (SvcID s) = None"
  shows "keyed (peers (snd (main_handleBroadcast s d reply w))) \<and>
         peers (snd (main_handleBroadcast s d reply w)) (SvcID s) = None"
proof (cases "\<exists>msg. d = Some msg \<and> MsgID msg \<noteq> SvcID s \<and> MessageType msg = DiscoveryMessage
                    \<and> peers w (MsgID msg) = None")
  case True
  then obtain msg where msg: "d = Some msg" "MsgID msg \<noteq> SvcID s"
      "MessageType msg = DiscoveryMessage" "peers w (MsgID msg) = None"
    by blast
  let ?w1 = "Add (new_Peer (MsgID msg) (MsgAddress msg)) w"
  have inv1: "keyed (peers ?w1) \<and> peers ?w1 (SvcID s) = None"
    using inv msg(2) by (intro Add_inv) (simp_all add: new_Peer_def)
  have "snd (main_handleBroadcast s d reply w) =
        snd (snd (sendJoinRequest (SvcID s) (MsgAddress msg)
                   (new_Peer (SvcID s) (GetFullAddress s)) reply ?w1))"
    using msg by (simp add: main_handleBroadcast_def Get_def Let_def split: prod.splits)
  then show ?thesis using sendJoinRequest_inv [OF inv1] by simp
next
  case False
  then have "snd (main_handleBroadcast s d reply w) = w"
    by (auto simp: main_handleBroadcast_def Get_def split: option.splits)
  then show ?thesis using inv by simp
qed

lemma discovery_handleBroadcast_inv:
  "keyed (peers w) \<and> peers w self = None \<Longrightarrow>
   keyed (peers (snd (discovery_handleBroadcast (service_discovery self addr port) d w))) \<and>
   peers (snd (discovery_handleBroadcast (service_discovery self addr port) d w)) self = None"
  by (auto simp: discovery_handleBroadcast_def service_discovery_def service_onPeerFound_def
      new_Peer_def Add_keyed Add_other split: option.splits)

lemma service_step_inv:
  "keyed (peers w) \<and> peers w self = None \<Longrightarrow> \<not> names_id self e \<Longrightarrow>
   keyed (peers (service_step self addr port e w)) \<and>
   peers (service_step self addr port e w) self = None"
proof (cases e)
  case (JoinRequest ks r)
  assume "keyed (peers w) \<and> peers w self = None" "\<not> names_id self e"
  then show ?thesis unfolding JoinRequest service_step.simps by (rule handlers_HandleJoin_inv)
next
  case (HeartbeatRequest r)
  assume "keyed (peers w) \<and> peers w self = None" "\<not> names_id self e"
  then show ?thesis unfolding HeartbeatRequest service_step.simps by (rule HandleHeartbeat_inv)
next
  case (GossipRequest r)
  assume "keyed (peers w) \<and> peers w self = None"
  then show ?thesis unfolding GossipRequest service_step.simps by (rule HandleGossip_inv)
next
  case (Datagram d reply)
  assume "keyed (peers w) \<and> peers w self = None"
  then show ?thesis unfolding Datagram service_step.simps by (rule discovery_handleBroadcast_inv)
qed

lemma main_step_inv:
  "keyed (peers w) \<and> peers w (SvcID s) = None \<Longrightarrow> \<not> names_id (SvcID s) e \<Longrightarrow>
   \<not> accepted_join e \<Longrightarrow>
   keyed (peers (main_step s e w)) \<and> peers (main_step s e w) (SvcID s) = None"
proof (cases e)
  case (JoinRequest ks r)
  assume "keyed (peers w) \<and> peers w (SvcID s) = None" "\<not> accepted_join e"
  then show ?thesis unfolding JoinRequest
    by (auto simp: main_HandleJoin_def split: option.splits)
next
  case (HeartbeatRequest r)
  assume "keyed (peers w) \<and> peers w (SvcID s) = None" "\<not> names_id (SvcID s) e"
  then show ?thesis unfolding HeartbeatRequest main_step.simps by (rule HandleHeartbeat_inv)
next
  case (GossipRequest r)
  assume "keyed (peers w) \<and> peers w (SvcID s) = None"
  then show ?thesis unfolding GossipRequest main_step.simps by (rule HandleGossip_inv)
next
  case (Datagram d reply)
  assume "keyed (peers w) \<and> peers w (SvcID s) = None"
  then show ?thesis unfolding Datagram main_step.simps by (rule main_handleBroadcast_inv)
qed

lemma service_run_inv:
  "keyed (peers w) \<and> peers w self = None \<Longrightarrow> \<forall>e \<in> set evs. \<not> names_id self e \<Longrightarrow>
   keyed (peers (fold (service_step self addr port) evs w)) \<and>
   peers (fold (service_step self addr port) evs w) self = None"
proof (induction evs arbitrary: w)
  case Nil
  then show ?case by simp
next
  case (Cons e evs)
  have "keyed (peers (service_step self addr port e w)) \<and>
        peers (service_step self addr port e w) self = None"
    using Cons.prems by (simp add: service_step_inv)
  then show ?case using Cons.IH Cons.prems(2) by simp
qed

lemma main_run_inv:
  "keyed (peers w) \<and> peers w (SvcID s) = None \<Longrightarrow>
   \<forall>e \<in> set evs. \<not> names_id (SvcID s) e \<and> \<not> accepted_join e \<Longrightarrow>
   keyed (peers (fold (main_step s) evs w)) \<and> peers (fold (main_step s) evs w) (SvcID s) = None"
proof (induction evs arbitrary: w)
  case Nil
  then show ?case by simp
next
  case (Cons e evs)
  have "keyed (peers (main_step s e w)) \<and> peers (main_step s e w) (SvcID s) = None"
    using Cons.prems by (simp add: main_step_inv)
  then show ?case using Cons.IH Cons.prems(2) by simp
qed

lemma self_excluded_iff:
  "keyed m \<Longrightarrow> self_excluded self m \<longleftrightarrow> m self = None"
  by (auto simp: keyed_def self_excluded_def)

text \<open>
  C1, as amended. From a registry that holds no record of the local node, a node wired by
  \<^verbatim>\<open>NewService\<close> of package \<^verbatim>\<open>service\<close> never stores one while it handles \<^verbatim>\<open>/gossip\<close>
  requests, broadcast datagrams, and \<^verbatim>\<open>/join\<close> and \<^verbatim>\<open>/heartbeat\<close> requests that carry
  another id than its own; a node of package \<^verbatim>\<open>main\<close> never stores one while it handles
  \<^verbatim>\<open>/gossip\<close> requests, broadcast datagrams with the join they trigger, and \<^verbatim>\<open>/heartbeat\<close>
  requests that carry another id (its \<^verbatim>\<open>/join\<close> handler stores a record of the local node
  at every accepted join).
\<close>

theorem self_exclusion_preserved:
  assumes "keyed (peers w)" and "self_excluded self (peers w)"
  shows "((\<forall>e \<in> set evs. \<not> names_id self e) \<longrightarrow>
            self_excluded self (peers (fold (service_step self addr port) evs w))) \<and>
         (SvcID s = self \<and> (\<forall>e \<in> set evs. \<not> names_id self e \<and> \<not> accepted_join e) \<longrightarrow>
            self_excluded self (peers (fold (main_step s) evs w)))"
proof -
  have inv: "keyed (peers w) \<and> peers w self = None"
    using assms by (simp add: self_excluded_iff)
  show ?thesis
  proof (intro conjI impI)
    assume "\<forall>e \<in> set evs. \<not> names_id self e"
    then show "self_excluded self (peers (fold (service_step self addr port) evs w))"
      using service_run_inv [OF inv] by (simp add: self_excluded_iff)
  next
    assume a: "SvcID s = self \<and> (\<forall>e \<in> set evs. \<not> names_id self e \<and> \<not> accepted_join e)"
    then have "keyed (peers w) \<and> peers w (SvcID s) = None" using inv by simp
    then show "self_excluded self (peers (fold (main_step s) evs w))"
      using main_run_inv [of w s evs] a by (simp add: self_excluded_iff)
  qed
qed

lemma fmt_d_8080: "fmt_d 8080 = ''8080''"
  by (simp add: fmt_d_def fmt_nat.simps)

lemma node_A_address: "GetFullAddress node_A = ''http://10.0.0.1:8080''"
  by (simp add: GetFullAddress_def node_A_def fmt_d_8080)

lemma empty_world_inv: "keyed (peers empty_world) \<and> self_excluded ''A'' (peers empty_world)"
  by (simp add: keyed_def self_excluded_def empty_world_def NewPeerList_def)

lemma events_service_foreign: "\<forall>e \<in> set events_service. \<not> names_id ''A'' e"
  by (simp add: events_service_def post_def peer_B_def heartbeat_C_def map_index_def MethodPost_def)

lemma events_main_foreign:
  "\<forall>e \<in> set events_main. \<not> names_id ''A'' e \<and> \<not> accepted_join e"
  by (simp add: events_main_def post_def heartbeat_C_def map_index_def MethodPost_def)

theorem self_exclusion_preserved_witness:
  "keyed (peers empty_world) \<and> self_excluded ''A'' (peers empty_world) \<and>
   list_all (\<lambda>e. \<not> names_id ''A'' e) events_service \<and>
   self_excluded ''A'' (peers (fold (service_step ''A'' ''http://10.0.0.1:8080'' 8080) events_service empty_world)) \<and>
   SvcID node_A = ''A'' \<and>
   list_all (\<lambda>e. \<not> names_id ''A'' e \<and> \<not> accepted_join e) events_main \<and>
   self_excluded ''A'' (peers (fold (main_step node_A) events_main empty_world))"
proof -
  have k: "keyed (peers empty_world)" and x: "self_excluded ''A'' (peers empty_world)"
    using empty_world_inv by simp_all
  have a: "SvcID node_A = ''A''" by (simp add: node_A_def)
  show ?thesis
    using self_exclusion_preserved [OF k x, of events_service "''http://10.0.0.1:8080''" 8080 node_A]
      self_exclusion_preserved [OF k x, of events_main "''http://10.0.0.1:8080''" 8080 node_A]
      k x a events_service_foreign events_main_foreign
    unfolding list_all_iff by blast
qed

lemma events_service_result:
  "map (\<lambda>k. map_option Address (peers (fold (service_step ''A'' ''http://10.0.0.1:8080'' 8080) events_service empty_world) k))
     [''A'', ''B'', ''C'', ''D'', ''E''] =
   [None, Some ''http://10.0.0.2:8081'', Some ''http://10.0.0.3:8082'', Some ''http://10.0.0.4:8083'',
    Some ''http://10.0.0.5:8084'']"
  by (simp add: events_service_def empty_world_def NewPeerList_def post_def peer_B_def peer_E_def
      heartbeat_C_def handlers_HandleJoin_def HandleHeartbeat_def HandleGossip_def
      discovery_handleBroadcast_def service_handler_def service_discovery_def
      service_onPeerJoin_def service_onPeerFound_def MethodPost_def map_index_def Get_def Add_def
      new_Peer_def announce_def DiscoveryMessage_def Let_def clock_from_def)

lemma events_main_result:
  "map (\<lambda>k. map_option Address (peers (fold (main_step node_A) events_main empty_world) k))
     [''A'', ''B'', ''C'', ''D'', ''E''] =
   [None, Some ''http://10.0.0.2:8081'', Some ''http://10.0.0.3:8082'', Some ''http://10.0.0.4:8083'',
    Some ''http://10.0.0.5:8084'']"
  by (simp add: events_main_def empty_world_def NewPeerList_def post_def peer_B_def peer_E_def
      heartbeat_C_def HandleHeartbeat_def HandleGossip_def main_handleBroadcast_def
      sendJoinRequest_def node_A_def
      MethodPost_def map_index_def Get_def Add_def
      new_Peer_def announce_def DiscoveryMessage_def Let_def clock_from_def)

text \<open>
  C1 as stated fails: \<^verbatim>\<open>HandleJoin\<close> of package \<^verbatim>\<open>main\<close> adds \<^verbatim>\<open>thisPeer\<close>, the record of the
  node itself, after the record of the peer that joins.
\<close>

theorem main_HandleJoin_stores_self:
  "peers (snd (main_HandleJoin node_A [''B'', ''A''] (post peer_B) empty_world)) ''A''
     = Some \<lparr>ID = ''A'', Address = ''http://10.0.0.1:8080'', LastSeen = 51 * second, IsAlive = True\<rparr> \<and>
   \<not> self_excluded (SvcID node_A)
       (peers (main_step node_A (JoinRequest [''B'', ''A''] (post peer_B)) empty_world))"
proof -
  have r: "peers (snd (main_HandleJoin node_A [''B'', ''A''] (post peer_B) empty_world)) ''A''
     = Some \<lparr>ID = ''A'', Address = ''http://10.0.0.1:8080'', LastSeen = 51 * second, IsAlive = True\<rparr>"
    by (simp add: main_HandleJoin_def post_def MethodPost_def Let_def Add_def new_Peer_def
        node_A_address empty_world_def clock_from_def second_def)
       (simp add: node_A_def)
  then have "\<not> self_excluded ''A'' (peers (snd (main_HandleJoin node_A [''B'', ''A''] (post peer_B) empty_world)))"
    unfolding self_excluded_def by blast
  then show ?thesis using r by (simp add: node_A_def)
qed

section \<open>Gossip merge\<close>

text \<open>
  The readings of \<^verbatim>\<open>time.Now()\<close> that a loop over \<open>n\<close> records can take are the first \<open>n\<close>
  of the stream.
\<close>

lemma stake_prefix_subset: "set (stake n s) \<subseteq> set (stake (Suc n) s)"
proof -
  have "stake (Suc n) s = stake n s @ [s !! n]" by (rule stake_Suc)
  then have "set (stake (Suc n) s) = set (stake n s) \<union> {s !! n}" by (simp only: set_append list.set)
  then show ?thesis by blast
qed

lemma readings_skip: "set (stake (Suc n) (clock w)) \<subseteq> S \<Longrightarrow> set (stake n (clock w)) \<subseteq> S"
  using stake_prefix_subset [of n "clock w"] by blast

lemma readings_Add:
  "set (stake (Suc n) (clock w)) \<subseteq> S \<Longrightarrow>
   shd (clock w) \<in> S \<and> set (stake n (clock (Add p w))) \<subseteq> S"
  by (simp add: Add_clock)

text \<open>A record stamped by the receiver stays one through the rest of the loop.\<close>

lemma gossip_merge_keeps_stamped:
  "\<exists>r. peers w i = Some r \<and> ID r = i \<and> IsAlive r \<and> LastSeen r \<in> S \<Longrightarrow>
   set (stake (length ps) (clock w)) \<subseteq> S \<Longrightarrow>
   \<exists>r. peers (snd (gossip_merge self ps w)) i = Some r \<and> ID r = i \<and> IsAlive r \<and> LastSeen r \<in> S"
proof (induction ps arbitrary: w)
  case Nil
  then show ?case by simp
next
  case (Cons x ps)
  have readings: "set (stake (Suc (length ps)) (clock w)) \<subseteq> S"
    using Cons.prems(2) by simp
  show ?case
  proof (cases x)
    case None
    then show ?thesis using Cons.prems(1) by simp
  next
    case (Some peer)
    have stamped: "\<exists>r. peers (Add peer w) i = Some r \<and> ID r = i \<and> IsAlive r \<and> LastSeen r \<in> S"
    proof (cases "ID peer = i")
      case True
      then show ?thesis using readings_Add [OF readings] by (simp add: Add_def)
    next
      case False
      then show ?thesis using Cons.prems(1) by (simp add: Add_def)
    qed
    have later: "set (stake (length ps) (clock (Add peer w))) \<subseteq> S"
      using readings_Add [OF readings] by simp
    note ih_add = Cons.IH [OF stamped later]
    note ih_skip = Cons.IH [OF Cons.prems(1) readings_skip [OF readings]]
    show ?thesis
      using Some ih_add ih_skip by (simp split: option.splits)
  qed
qed

lemma gossip_merge_no_nil: "None \<notin> set ps \<Longrightarrow> fst (gossip_merge self ps w)"
  by (induction self ps w rule: gossip_merge.induct) (auto split: option.splits)

lemma gossip_merge_stamps_new:
  "None \<notin> set ps \<Longrightarrow> Some p \<in> set ps \<Longrightarrow> ID p \<noteq> self \<Longrightarrow> peers w (ID p) = None \<Longrightarrow>
   set (stake (length ps) (clock w)) \<subseteq> S \<Longrightarrow>
   \<exists>r. peers (snd (gossip_merge self ps w)) (ID p) = Some r \<and> ID r = ID p \<and> IsAlive r \<and>
       LastSeen r \<in> S"
proof (induction ps arbitrary: w)
  case Nil
  then show ?case by simp
next
  case (Cons x ps)
  then obtain q where x: "x = Some q" by (cases x) auto
  have readings: "set (stake (Suc (length ps)) (clock w)) \<subseteq> S"
    using Cons.prems(5) by simp
  have later: "set (stake (length ps) (clock (Add q w))) \<subseteq> S"
    using readings_Add [OF readings] by simp
  show ?case
  proof (cases "ID q = ID p")
    case True
    have "\<exists>r. peers (Add q w) (ID p) = Some r \<and> ID r = ID p \<and> IsAlive r \<and> LastSeen r \<in> S"
      using True readings_Add [OF readings] by (simp add: Add_def)
    then have "\<exists>r. peers (snd (gossip_merge self ps (Add q w))) (ID p) = Some r \<and> ID r = ID p \<and>
        IsAlive r \<and> LastSeen r \<in> S"
      using later by (rule gossip_merge_keeps_stamped)
    then show ?thesis
      using True x Cons.prems(3,4) by (simp add: Get_def)
  next
    case False
    then have in_rest: "Some p \<in> set ps" using Cons.prems(2) x by auto
    have no_nil: "None \<notin> set ps" using Cons.prems(1) by simp
    have absent: "peers (Add q w) (ID p) = None"
      using False Cons.prems(4) by (simp add: Add_def)
    note ih_add = Cons.IH [OF no_nil in_rest Cons.prems(3) absent later]
    note ih_skip = Cons.IH [OF no_nil in_rest Cons.prems(3) Cons.prems(4) readings_skip [OF readings]]
    show ?thesis
      using x ih_add ih_skip by (simp split: option.splits)
  qed
qed

text \<open>
  C2, as amended. When the decoded payload of a POST on \<^verbatim>\<open>/gossip\<close> has no \<^verbatim>\<open>null\<close> entry,
  the handler answers 200 and, for every record \<open>p\<close> of the payload whose id is not the
  receiver's and is absent from the registry, the registry afterwards holds a record
  under \<open>p\<close>'s id that is alive and whose \<open>LastSeen\<close> is one of the readings of the
  receiver's own clock that the merge can take: reading number \<open>k\<close> of \<^verbatim>\<open>time.Now()\<close>
  counted from the start of the handler, for some \<open>k\<close> below the length of the payload
  (\<^verbatim>\<open>Add\<close> stamps \<^verbatim>\<open>time.Now()\<close>, once for each record it stores). The value sent in the
  payload is not kept.
\<close>

theorem gossip_new_record_stamped_by_receiver:
  assumes "Method r = ''POST''" and "Body r = Some ps" and "None \<notin> set ps"
    and "Some p \<in> set ps" and "ID p \<noteq> self" and "peers w (ID p) = None"
  shows "fst (HandleGossip self r w) = Returned \<lparr>Status = 200, Payload = NoBody\<rparr> \<and>
         (\<exists>rec k. peers (snd (HandleGossip self r w)) (ID p) = Some rec \<and> ID rec = ID p \<and>
                  IsAlive rec \<and> k < length ps \<and> LastSeen rec = clock w !! k)"
proof -
  have run: "HandleGossip self r w =
     (if fst (gossip_merge self ps w) then Returned \<lparr>Status = 200, Payload = NoBody\<rparr> else Panicked,
      snd (gossip_merge self ps w))"
    using assms(1,2) by (simp add: HandleGossip_accepted MethodPost_def)
  have ok: "fst (gossip_merge self ps w)"
    using assms(3) by (rule gossip_merge_no_nil)
  obtain rec where rec: "peers (snd (gossip_merge self ps w)) (ID p) = Some rec" "ID rec = ID p"
      "IsAlive rec" "LastSeen rec \<in> set (stake (length ps) (clock w))"
    using gossip_merge_stamps_new [OF assms(3-6), of "set (stake (length ps) (clock w))"] by blast
  obtain k where k: "k < length ps" "stake (length ps) (clock w) ! k = LastSeen rec"
    using rec(4) by (auto simp: in_set_conv_nth)
  then have "LastSeen rec = clock w !! k" by simp
  then show ?thesis using ok rec k(1) by (auto simp: run)
qed

lemma gossip_merge_stale:
  "peers w i = Some l \<Longrightarrow> \<forall>q. Some q \<in> set ps \<and> ID q = i \<longrightarrow> LastSeen q \<le> LastSeen l \<Longrightarrow>
   peers (snd (gossip_merge self ps w)) i = Some l"
proof (induction ps arbitrary: w)
  case Nil
  then show ?case by simp
next
  case (Cons x ps)
  have rest: "\<forall>q. Some q \<in> set ps \<and> ID q = i \<longrightarrow> LastSeen q \<le> LastSeen l"
    using Cons.prems(2) by simp
  note ih_skip = Cons.IH [OF Cons.prems(1) rest]
  show ?case
  proof (cases x)
    case None
    then show ?thesis using Cons.prems(1) by simp
  next
    case (Some peer)
    show ?thesis
    proof (cases "ID peer = i")
      case True
      then have "\<not> time_After (LastSeen peer) (LastSeen l)"
        using Cons.prems(2) Some by (simp add: time_After_def not_less)
      then show ?thesis
        using True Some Cons.prems(1) ih_skip by (auto simp: Get_def)
    next
      case False
      then have other: "peers (Add peer w) i = Some l"
        using Cons.prems(1) by (simp add: Add_def)
      note ih_add = Cons.IH [OF other rest]
      show ?thesis
        using Some ih_add ih_skip by (simp split: option.splits)
    qed
  qed
qed

text \<open>
  C3, as amended. If the registry holds a record under an id with timestamp \<open>L\<close>, and
  every record of the payload that carries this id has a timestamp \<open>R \<le> L\<close>, then after
  the \<^verbatim>\<open>/gossip\<close> handler the registry holds the very same record under that id (whatever
  the method, the other records of the payload, or a \<^verbatim>\<open>null\<close> entry in it).
\<close>

theorem gossip_stale_record_ignored:
  assumes "Body r = Some ps" and "peers w i = Some l"
    and "\<forall>q. Some q \<in> set ps \<and> ID q = i \<longrightarrow> LastSeen q \<le> LastSeen l"
  shows "peers (snd (HandleGossip self r w)) i = Some l"
proof (cases "Method r = MethodPost")
  case True
  then show ?thesis
    using assms by (simp add: HandleGossip_accepted gossip_merge_stale)
next
  case False
  then show ?thesis using assms(2) by (simp add: HandleGossip_rejected)
qed

theorem gossip_new_record_stamped_by_receiver_witness:
  "Method (post [Some peer_E, Some stale_B]) = ''POST'' \<and>
   Body (post [Some peer_E, Some stale_B]) = Some [Some peer_E, Some stale_B] \<and>
   None \<notin> set [Some peer_E, Some stale_B] \<and> Some peer_E \<in> set [Some peer_E, Some stale_B] \<and>
   ID peer_E \<noteq> ''A'' \<and> peers empty_world (ID peer_E) = None \<and>
   fst (HandleGossip ''A'' (post [Some peer_E, Some stale_B]) empty_world)
     = Returned \<lparr>Status = 200, Payload = NoBody\<rparr> \<and>
   (\<exists>rec k. peers (snd (HandleGossip ''A'' (post [Some peer_E, Some stale_B]) empty_world)) (ID peer_E)
            = Some rec \<and> ID rec = ID peer_E \<and> IsAlive rec \<and>
            k < length [Some peer_E, Some stale_B] \<and> LastSeen rec = clock empty_world !! k) \<and>
   peers (snd (HandleGossip ''A'' (post [Some peer_E, Some stale_B]) empty_world)) ''E''
     = Some \<lparr>ID = ''E'', Address = ''http://10.0.0.5:8084'', LastSeen = 50 * second, IsAlive = True\<rparr> \<and>
   clock empty_world !! 0 = 50 * second"
proof -
  have h: "Method (post [Some peer_E, Some stale_B]) = ''POST''"
    "Body (post [Some peer_E, Some stale_B]) = Some [Some peer_E, Some stale_B]"
    "None \<notin> set [Some peer_E, Some stale_B]" "Some peer_E \<in> set [Some peer_E, Some stale_B]"
    "ID peer_E \<noteq> ''A''" "peers empty_world (ID peer_E) = None"
    by (simp_all add: post_def peer_E_def empty_world_def NewPeerList_def)
  have e: "peers (snd (HandleGossip ''A'' (post [Some peer_E, Some stale_B]) empty_world)) ''E''
     = Some \<lparr>ID = ''E'', Address = ''http://10.0.0.5:8084'', LastSeen = 50 * second, IsAlive = True\<rparr>"
    "clock empty_world !! 0 = 50 * second"
    by (simp_all add: HandleGossip_def post_def MethodPost_def Get_def Add_def peer_E_def stale_B_def
        empty_world_def NewPeerList_def clock_from_def second_def)
  show ?thesis
    using gossip_new_record_stamped_by_receiver [OF h] h e by blast
qed

text \<open>
  C2 as stated fails: a record sent with \<open>LastSeen\<close> 5 s to a node whose clock reads 50 s
  is stored with \<open>LastSeen\<close> 50 s.
\<close>

theorem gossip_new_record_gets_receiver_time:
  "Some peer_E \<in> set [Some peer_E] \<and> ID peer_E \<noteq> ''A'' \<and> peers empty_world (ID peer_E) = None \<and>
   LastSeen peer_E = 5 * second \<and> shd (clock empty_world) = 50 * second \<and>
   peers (snd (HandleGossip ''A'' (post [Some peer_E]) empty_world)) (ID peer_E)
     = Some \<lparr>ID = ''E'', Address = ''http://10.0.0.5:8084'', LastSeen = 50 * second, IsAlive = True\<rparr> \<and>
   map_option LastSeen (peers (snd (HandleGossip ''A'' (post [Some peer_E]) empty_world)) (ID peer_E))
     \<noteq> Some (LastSeen peer_E)"
  by (simp add: HandleGossip_def post_def MethodPost_def Get_def Add_def peer_E_def empty_world_def
      NewPeerList_def clock_from_def second_def)

theorem gossip_stale_record_ignored_witness:
  "Body (post [Some stale_B, Some peer_E]) = Some [Some stale_B, Some peer_E] \<and>
   peers world_BCD ''B'' = Some peer_B \<and>
   ID stale_B = ''B'' \<and> LastSeen stale_B \<le> LastSeen peer_B \<and> ID peer_E \<noteq> ''B'' \<and>
   peers (snd (HandleGossip ''A'' (post [Some stale_B, Some peer_E]) world_BCD)) ''B'' = Some peer_B"
proof -
  have h: "Body (post [Some stale_B, Some peer_E]) = Some [Some stale_B, Some peer_E]"
    "peers world_BCD ''B'' = Some peer_B"
    "\<forall>q. Some q \<in> set [Some stale_B, Some peer_E] \<and> ID q = ''B'' \<longrightarrow> LastSeen q \<le> LastSeen peer_B"
    by (auto simp: post_def world_BCD_def stale_B_def peer_B_def peer_E_def second_def)
  have "ID stale_B = ''B''" "LastSeen stale_B \<le> LastSeen peer_B" "ID peer_E \<noteq> ''B''"
    by (simp_all add: stale_B_def peer_B_def peer_E_def second_def)
  then show ?thesis
    using gossip_stale_record_ignored [OF h, of "''A''"] h(1,2) by simp
qed

text \<open>
  C3 as stated fails when the payload carries the same id twice: the first record is not
  newer than the local one, the second is, and the handler overwrites the local record.
\<close>

theorem gossip_duplicate_id_overwrites:
  "Some stale_B \<in> set [Some stale_B, Some fresh_B] \<and>
   peers world_BCD (ID stale_B) = Some peer_B \<and> LastSeen stale_B \<le> LastSeen peer_B \<and>
   peers (snd (HandleGossip ''A'' (post [Some stale_B, Some fresh_B]) world_BCD)) (ID stale_B)
     = Some \<lparr>ID = ''B'', Address = ''http://10.0.0.2:9191'', LastSeen = 50 * second, IsAlive = True\<rparr> \<and>
   peers (snd (HandleGossip ''A'' (post [Some stale_B, Some fresh_B]) world_BCD)) (ID stale_B)
     \<noteq> Some peer_B"
  by (simp add: HandleGossip_def post_def MethodPost_def Get_def Add_def stale_B_def fresh_B_def
      peer_B_def world_BCD_def clock_from_def second_def time_After_def)

section \<open>Heartbeat without an id\<close>

text \<open>
  C10, as amended. A POST on \<^verbatim>\<open>/heartbeat\<close> whose body decodes to an object without an
  \<^verbatim>\<open>id\<close> member is answered 200. If no record is stored under the empty id, the handler
  stores one, with the empty id, the \<^verbatim>\<open>address\<close> member of the body as its address (the
  empty string when the body has no such member either), the clock reading as \<open>LastSeen\<close>
  and \<open>IsAlive\<close> true; if there is one, the handler refreshes its \<open>LastSeen\<close> and sets
  \<open>IsAlive\<close>. No check rejects the empty id.
\<close>

theorem heartbeat_without_id:
  assumes "Method r = ''POST''" and "Body r = Some hb" and "hb ''id'' = None"
  shows "Status (fst (HandleHeartbeat r w)) = 200 \<and>
         (peers w '''' = None \<longrightarrow>
            snd (HandleHeartbeat r w) =
              w\<lparr>peers := (peers w)('''' \<mapsto>
                   \<lparr>ID = '''', Address = map_index hb ''address'', LastSeen = shd (clock w),
                    IsAlive = True\<rparr>),
                clock := stl (clock w)\<rparr>) \<and>
         (\<forall>l. peers w '''' = Some l \<longrightarrow>
            snd (HandleHeartbeat r w) =
              w\<lparr>peers := (peers w)('''' \<mapsto> l\<lparr>LastSeen := shd (clock w), IsAlive := True\<rparr>),
                clock := stl (clock w)\<rparr>) \<and>
         (hb ''address'' = None \<longrightarrow> map_index hb ''address'' = '''')"
  using assms
  by (cases "peers w ''''")
     (simp_all add: HandleHeartbeat_def MethodPost_def map_index_def Let_def Get_def Add_def
      UpdateLastSeen_def new_Peer_def)

theorem heartbeat_without_id_witness:
  "Method (post (Map.empty :: string \<rightharpoonup> string)) = ''POST'' \<and>
   Body (post (Map.empty :: string \<rightharpoonup> string)) = Some Map.empty \<and>
   (Map.empty :: string \<rightharpoonup> string) ''id'' = None \<and>
   Status (fst (HandleHeartbeat (post Map.empty) empty_world)) = 200 \<and>
   peers empty_world '''' = None \<and>
   peers (snd (HandleHeartbeat (post Map.empty) empty_world)) ''''
     = Some \<lparr>ID = '''', Address = '''', LastSeen = 50 * second, IsAlive = True\<rparr>"
proof -
  have h: "Method (post (Map.empty :: string \<rightharpoonup> string)) = ''POST''"
    "Body (post (Map.empty :: string \<rightharpoonup> string)) = Some Map.empty"
    "(Map.empty :: string \<rightharpoonup> string) ''id'' = None"
    by (simp_all add: post_def)
  have e: "peers empty_world '''' = None"
    by (simp add: empty_world_def NewPeerList_def)
  have "snd (HandleHeartbeat (post Map.empty) empty_world) =
      empty_world\<lparr>peers := (peers empty_world)('''' \<mapsto>
           \<lparr>ID = '''', Address = map_index Map.empty ''address'', LastSeen = shd (clock empty_world),
            IsAlive = True\<rparr>),
        clock := stl (clock empty_world)\<rparr>"
    using heartbeat_without_id [OF h, of empty_world] e by blast
  then have "peers (snd (HandleHeartbeat (post Map.empty) empty_world)) ''''
     = Some \<lparr>ID = '''', Address = '''', LastSeen = 50 * second, IsAlive = True\<rparr>"
    by (simp add: map_index_def empty_world_def clock_from_def)
  then show ?thesis
    using heartbeat_without_id [OF h, of empty_world] h e by simp
qed

text \<open>
  C10 as stated fails for a body that has an \<^verbatim>\<open>address\<close> member and no \<^verbatim>\<open>id\<close> member: the
  address of the new record is that member, not the empty string.
\<close>

theorem heartbeat_address_member_kept:
  "heartbeat_no_id ''id'' = None \<and> peers empty_world '''' = None \<and>
   Status (fst (HandleHeartbeat (post heartbeat_no_id) empty_world)) = 200 \<and>
   peers (snd (HandleHeartbeat (post heartbeat_no_id) empty_world)) ''''
     = Some \<lparr>ID = '''', Address = ''http://10.0.0.9:9000'', LastSeen = 50 * second, IsAlive = True\<rparr> \<and>
   map_option Address (peers (snd (HandleHeartbeat (post heartbeat_no_id) empty_world)) '''')
     \<noteq> Some ''''"
  by (simp add: HandleHeartbeat_def post_def MethodPost_def map_index_def heartbeat_no_id_def
      Get_def Add_def new_Peer_def empty_world_def NewPeerList_def clock_from_def Let_def)

section \<open>Status\<close>

lemma GetAll_length:
  "range_order (peers w) ks \<Longrightarrow> length (GetAll ks w) = card (dom (peers w))"
proof -
  assume ro: "range_order (peers w) ks"
  then have "\<forall>k \<in> set ks. peers w k \<noteq> None"
    by (auto simp: range_order_def)
  then have "length (List.map_filter (peers w) ks) = length ks"
    by (induction ks) (auto simp: List.map_filter_simps)
  moreover have "length ks = card (dom (peers w))"
    using ro by (metis distinct_card range_order_def)
  ultimately show ?thesis by (simp add: GetAll_def)
qed

lemma GetAlive_length:
  "range_order (peers w) ks \<Longrightarrow> keyed (peers w) \<Longrightarrow>
   length (GetAlive ks w) = card {k. \<exists>r. peers w k = Some r \<and> IsAlive r}"
proof -
  assume ro: "range_order (peers w) ks" and k: "keyed (peers w)"
  have d: "distinct (map ID (GetAll ks w))"
    using ro k by (simp add: GetAll_distinct range_order_def)
  have "GetAlive ks w = filter IsAlive (GetAll ks w)"
    by (simp add: GetAlive_def GetAll_def)
  moreover have "distinct (map ID (filter IsAlive (GetAll ks w)))"
    using d by (simp add: distinct_map_filter)
  ultimately have "length (GetAlive ks w) = card (ID ` set (filter IsAlive (GetAll ks w)))"
    by (metis distinct_card length_map set_map)
  moreover have "ID ` set (filter IsAlive (GetAll ks w)) = {k. \<exists>r. peers w k = Some r \<and> IsAlive r}"
    using ro k by (force simp: GetAll_set range_order_def keyed_def image_iff)
  ultimately show ?thesis by simp
qed

lemma main_HandleStatus_full_address:
  "range_order (peers w) ks1 \<Longrightarrow> range_order (peers w) ks2 \<Longrightarrow> keyed (peers w) \<Longrightarrow>
   \<exists>info. main_HandleStatus s ks1 ks2 ''GET'' w = \<lparr>Status = 200, Payload = StatusJSON info\<rparr> \<and>
     status_address info = ''http://'' @ AdvertiseAddr s @ '':'' @ fmt_d (Port s) \<and>
     total_peers info = card (dom (peers w)) \<and>
     alive_peers info = card {k. \<exists>r. peers w k = Some r \<and> IsAlive r}"
  by (simp add: main_HandleStatus_def MethodGet_def Let_def GetFullAddress_def GetAll_length
      GetAlive_length)

text \<open>
  C8. For a GET on \<^verbatim>\<open>/status\<close> of node \<open>A\<close>, advertised as \<^verbatim>\<open>http://10.0.0.1:8080\<close>, with three
  known peers of which two are alive, \<^verbatim>\<open>HandleStatus\<close> of package \<^verbatim>\<open>handlers\<close> answers with
  the empty string as \<^verbatim>\<open>address\<close> (its counts are right), where \<^verbatim>\<open>HandleStatus\<close> of package
  \<^verbatim>\<open>main\<close> answers with the advertised URL.
\<close>

theorem handlers_HandleStatus_empty_address:
  "handlers_HandleStatus (service_handler ''A'') [''D'', ''B'', ''C''] [''C'', ''D'', ''B''] ''GET'' world_BCD =
     \<lparr>Status = 200,
      Payload = StatusJSON
        \<lparr>status_id = ''A'', status_address = '''', total_peers = 3, alive_peers = 2,
         status_peers = [peer_C, peer_D, peer_B]\<rparr>\<rparr> \<and>
   main_HandleStatus node_A [''D'', ''B'', ''C''] [''C'', ''D'', ''B''] ''GET'' world_BCD =
     \<lparr>Status = 200,
      Payload = StatusJSON
        \<lparr>status_id = ''A'', status_address = ''http://10.0.0.1:8080'', total_peers = 3,
         alive_peers = 2, status_peers = [peer_C, peer_D, peer_B]\<rparr>\<rparr>"
proof -
  have a: "GetAlive [''D'', ''B'', ''C''] world_BCD = [peer_B, peer_C]"
    by (simp add: GetAlive_def List.map_filter_simps world_BCD_def peer_B_def peer_C_def peer_D_def)
  have g: "GetAll [''C'', ''D'', ''B''] world_BCD = [peer_C, peer_D, peer_B]"
    by (simp add: GetAll_def List.map_filter_simps world_BCD_def)
  show ?thesis
    by (simp add: handlers_HandleStatus_def main_HandleStatus_def MethodGet_def Let_def a g
        service_handler_def node_A_address)
       (simp add: node_A_def)
qed

section \<open>Broadcast listener\<close>

lemma main_handleBroadcast_ignored:
  "d = None \<or> (\<exists>msg. d = Some msg \<and>
      (MsgID msg = SvcID s \<or> MessageType msg \<noteq> ''CLIP_PEER_DISCOVERY'' \<or> peers w (MsgID msg) \<noteq> None)) \<Longrightarrow>
   main_handleBroadcast s d reply w = ([], w)"
  by (auto simp: main_handleBroadcast_def DiscoveryMessage_def Get_def split: option.splits)

lemma add_foreign_keeps:
  "peers w i \<noteq> None \<Longrightarrow> peers (snd (add_foreign self ps w)) i \<noteq> None"
proof (induction self ps w rule: add_foreign.induct)
  case (1 self w)
  then show ?case by simp
next
  case (2 self ps w)
  then show ?case by simp
next
  case (3 self p ps w)
  have "peers (Add p w) i \<noteq> None"
    using "3.prems" by (simp add: Add_def)
  then show ?case using 3 by simp
qed

lemma sendJoinRequest_sent:
  "fst (sendJoinRequest self a p reply w) = [PostJoin (a @ ''/join'') p]"
proof (cases reply)
  case PostFailed
  then show ?thesis by (simp add: sendJoinRequest_def Let_def)
next
  case (JoinResponse code body)
  show ?thesis
  proof (cases body)
    case None
    then show ?thesis using JoinResponse by (simp add: sendJoinRequest_def Let_def)
  next
    case (Some ps)
    then show ?thesis using JoinResponse
      by (cases "add_foreign self ps w") (simp add: sendJoinRequest_def Let_def split: bool.splits)
  qed
qed

lemma sendJoinRequest_keeps:
  "peers w i \<noteq> None \<Longrightarrow> peers (snd (snd (sendJoinRequest self a p reply w))) i \<noteq> None"
  using add_foreign_keeps [of w i self]
  by (auto simp: sendJoinRequest_world split: join_reply.splits option.splits)

text \<open>
  \<^verbatim>\<open>handleBroadcast\<close> of package \<^verbatim>\<open>main\<close> on a datagram of the discovery type from a peer
  that is not in the registry: the peer is added, one join request goes to its address,
  and the peer is in the registry afterwards whatever the answer to the join is.
\<close>

lemma main_handleBroadcast_discovers:
  assumes "d = Some msg" and "MsgID msg \<noteq> SvcID s" and "MessageType msg = ''CLIP_PEER_DISCOVERY''"
    and "peers w (MsgID msg) = None"
  shows "fst (main_handleBroadcast s d reply w) =
           [PostJoin (MsgAddress msg @ ''/join'') (new_Peer (SvcID s) (GetFullAddress s))] \<and>
         snd (main_handleBroadcast s d PostFailed w) =
           w\<lparr>peers := (peers w)(MsgID msg \<mapsto>
                \<lparr>ID = MsgID msg, Address = MsgAddress msg, LastSeen = shd (clock w), IsAlive = True\<rparr>),
             clock := stl (clock w)\<rparr> \<and>
         peers (snd (main_handleBroadcast s d reply w)) (MsgID msg) \<noteq> None"
proof -
  let ?w1 = "Add (new_Peer (MsgID msg) (MsgAddress msg)) w"
  let ?me = "new_Peer (SvcID s) (GetFullAddress s)"
  have run: "main_handleBroadcast s d reply w =
      (fst (sendJoinRequest (SvcID s) (MsgAddress msg) ?me reply ?w1),
       snd (snd (sendJoinRequest (SvcID s) (MsgAddress msg) ?me reply ?w1)))" for reply
    using assms
    by (simp add: main_handleBroadcast_def DiscoveryMessage_def Get_def Let_def split: prod.splits)
  have w1: "peers ?w1 (MsgID msg) \<noteq> None"
    by (simp add: Add_def new_Peer_def)
  have "peers (snd (snd (sendJoinRequest (SvcID s) (MsgAddress msg) ?me reply ?w1))) (MsgID msg) \<noteq> None"
    using w1 by (rule sendJoinRequest_keeps)
  moreover have "snd (snd (sendJoinRequest (SvcID s) (MsgAddress msg) ?me PostFailed ?w1)) = ?w1"
    by (simp add: sendJoinRequest_world)
  ultimately show ?thesis
    by (simp add: run sendJoinRequest_sent) (simp add: Add_def new_Peer_def)
qed

text \<open>
  \<^verbatim>\<open>handleBroadcast\<close> of package \<^verbatim>\<open>discovery\<close> with the callback of \<^verbatim>\<open>NewService\<close>: every
  datagram of the discovery type from another id is passed to \<^verbatim>\<open>peerList.Add\<close>, present
  or not, and nothing is sent.
\<close>

lemma discovery_handleBroadcast_adds:
  "d = Some msg \<Longrightarrow> MsgID msg \<noteq> self \<Longrightarrow> MessageType msg = ''CLIP_PEER_DISCOVERY'' \<Longrightarrow>
   discovery_handleBroadcast (service_discovery self addr port) d w =
     ([], Add (new_Peer (MsgID msg) (MsgAddress msg)) w)"
  by (simp add: discovery_handleBroadcast_def service_discovery_def service_onPeerFound_def
      DiscoveryMessage_def)

text \<open>
  C9. Node \<open>A\<close> knows \<open>D\<close> as dead and does not know \<open>E\<close>. On a discovery datagram from
  \<open>D\<close> the listener of package \<^verbatim>\<open>discovery\<close>, wired by \<^verbatim>\<open>NewService\<close>, overwrites the
  record of \<open>D\<close> (new address, fresh timestamp, alive again), and on one from \<open>E\<close> it sends
  no join request; the listener of package \<^verbatim>\<open>main\<close> leaves the registry as it is in the
  first case and sends the join request in the second.
\<close>

theorem discovery_handleBroadcast_known_peer:
  "peers world_BCD ''D'' = Some peer_D \<and>
   fst (discovery_handleBroadcast (service_discovery ''A'' ''http://10.0.0.1:8080'' 8080)
         (Some (announce ''D'' ''http://10.0.0.4:9999'')) world_BCD) = [] \<and>
   peers (snd (discovery_handleBroadcast (service_discovery ''A'' ''http://10.0.0.1:8080'' 8080)
                (Some (announce ''D'' ''http://10.0.0.4:9999'')) world_BCD)) ''D''
     = Some \<lparr>ID = ''D'', Address = ''http://10.0.0.4:9999'', LastSeen = 50 * second, IsAlive = True\<rparr> \<and>
   peers (snd (discovery_handleBroadcast (service_discovery ''A'' ''http://10.0.0.1:8080'' 8080)
                (Some (announce ''D'' ''http://10.0.0.4:9999'')) world_BCD)) ''D''
     \<noteq> peers world_BCD ''D'' \<and>
   peers world_BCD ''E'' = None \<and>
   fst (discovery_handleBroadcast (service_discovery ''A'' ''http://10.0.0.1:8080'' 8080)
         (Some (announce ''E'' ''http://10.0.0.5:8084'')) world_BCD) = [] \<and>
   main_handleBroadcast node_A (Some (announce ''D'' ''http://10.0.0.4:9999'')) PostFailed world_BCD
     = ([], world_BCD) \<and>
   fst (main_handleBroadcast node_A (Some (announce ''E'' ''http://10.0.0.5:8084'')) PostFailed world_BCD)
     = [PostJoin ''http://10.0.0.5:8084/join''
          \<lparr>ID = ''A'', Address = ''http://10.0.0.1:8080'', LastSeen = 0, IsAlive = False\<rparr>]"
proof -
  have d: "peers world_BCD ''D'' = Some peer_D" and e: "peers world_BCD ''E'' = None"
    by (simp_all add: world_BCD_def)
  have known: "discovery_handleBroadcast (service_discovery ''A'' ''http://10.0.0.1:8080'' 8080)
         (Some (announce ''D'' ''http://10.0.0.4:9999'')) world_BCD =
       ([], Add (new_Peer ''D'' ''http://10.0.0.4:9999'') world_BCD)"
    by (simp add: discovery_handleBroadcast_def service_discovery_def service_onPeerFound_def
        DiscoveryMessage_def announce_def)
  have new: "fst (discovery_handleBroadcast (service_discovery ''A'' ''http://10.0.0.1:8080'' 8080)
         (Some (announce ''E'' ''http://10.0.0.5:8084'')) world_BCD) = []"
    by (simp add: discovery_handleBroadcast_def service_discovery_def service_onPeerFound_def
        DiscoveryMessage_def announce_def)
  have stamped: "peers (Add (new_Peer ''D'' ''http://10.0.0.4:9999'') world_BCD) ''D''
     = Some \<lparr>ID = ''D'', Address = ''http://10.0.0.4:9999'', LastSeen = 50 * second, IsAlive = True\<rparr>"
    by (simp add: Add_def new_Peer_def world_BCD_def clock_from_def)
  have differs: "Some \<lparr>ID = ''D'', Address = ''http://10.0.0.4:9999'', LastSeen = 50 * second, IsAlive = True\<rparr>
      \<noteq> Some peer_D"
    by (simp add: peer_D_def)
  have m1: "main_handleBroadcast node_A (Some (announce ''D'' ''http://10.0.0.4:9999'')) PostFailed world_BCD
     = ([], world_BCD)"
    by (simp add: main_handleBroadcast_def announce_def node_A_def DiscoveryMessage_def Get_def
        world_BCD_def)
  have m2: "fst (main_handleBroadcast node_A (Some (announce ''E'' ''http://10.0.0.5:8084'')) PostFailed world_BCD)
     = [PostJoin ''http://10.0.0.5:8084/join''
          \<lparr>ID = ''A'', Address = ''http://10.0.0.1:8080'', LastSeen = 0, IsAlive = False\<rparr>]"
    by (simp add: main_handleBroadcast_def announce_def DiscoveryMessage_def Get_def e
        sendJoinRequest_def Let_def new_Peer_def node_A_address zero_time_def)
       (simp add: node_A_def)
  show ?thesis
    using d e new m1 m2 stamped differs by (simp add: known)
qed

end
